theory Spec2Isabelle
  imports Complex_Main "HOL-Library.Word" "HOL-Library.Log_Nat"
begin

section \<open>Data model of the production monitor\<close>

text \<open>
  The development embeds \<open>ProductionMonitorWidget\<close> of \<open>js/moondream-demo.js\<close>.
  JavaScript numbers are modelled as \<open>real\<close> (measurements, thresholds written as the
  decimal literals of the source) and as \<open>int\<close> (the millisecond clock \<open>Date.now()\<close>).
  The luminance sum of the lighting analysis, whose value is compared with whole-number
  thresholds, is modelled with the rounding of double-precision arithmetic made explicit.
  The DOM is reduced to what the monitor reads back: whether a monitor has its status card
  (\<open>element\<close>) and the text of the scene description.
\<close>

datatype monitor_key =
  orientation | talking | focus | lighting | presence | composition | sceneContext

text \<open>One entry of \<open>this._monitors\<close>; \<open>statusClass\<close> is the source's field \<open>class\<close>.\<close>

record monitor =
  enabled :: bool
  status :: string
  statusClass :: string
  element :: bool

record talking_state =
  isTalking :: bool
  lastChange :: int

text \<open>A landmark \<open>{x, y, z}\<close>; \<open>z\<close> may be missing. A frame is an array whose
  entries may be holes (falsy), hence \<open>point option\<close>.\<close>

record point =
  px :: real
  py :: real
  pz :: "real option"

type_synonym landmarks = "point option list"

record widget =
  monitors :: "monitor_key \<Rightarrow> monitor"
  faceMesh :: bool
  cvReady :: bool
  isMonitoring :: bool
  monitorInterval :: bool
  landmarkHistory :: "landmarks list"
  talkingState :: talking_state
  lastMoonDreamCall :: int
  sceneText :: "string option"

text \<open>A drawable source (the video element or the image canvas). \<open>rgba i\<close> is byte
  \<open>i\<close> of the pixel array that \<open>getImageData\<close> returns after the source is drawn.\<close>

record source =
  tagName :: string
  videoWidth :: nat
  videoHeight :: nat
  width :: nat
  height :: nat
  rgba :: "nat \<Rightarrow> 8 word"

record media =
  video :: "source option"
  imageCanvas :: "source option"

text \<open>What the widget reads from its surroundings during one call: the media section,
  \<open>MediaCapture.stream\<close>, the uploaded image, the data URL \<open>captureFrame\<close> would return,
  whether the global \<open>cv\<close> exists, and the value \<open>stdDev.doubleAt(0, 0)\<close> that the OpenCV
  pipeline yields for the 40x40 patch at a given origin (\<open>None\<close>: the pipeline throws).\<close>

record env =
  media_of :: "media option"
  stream :: bool
  currentImage :: "string option"
  captureFrame :: string
  cvDefined :: bool
  laplacianStdDev :: "int \<Rightarrow> int \<Rightarrow> real option"

text \<open>Asynchronous operations a call dispatches; their callbacks are separate functions.\<close>

datatype async_op = FaceMeshSend | Detect string | Caption string

definition allKeys :: "monitor_key list" where
  "allKeys = [orientation, talking, focus, lighting, presence, composition, sceneContext]"

definition newMonitor :: monitor where
  "newMonitor = \<lparr>enabled = True, status = ''N/A'', statusClass = ''disabled'', element = False\<rparr>"

text \<open>The constructor; \<open>now\<close> is \<open>Date.now()\<close> at construction.\<close>

definition ProductionMonitorWidget :: "int \<Rightarrow> widget" where
  "ProductionMonitorWidget now =
     \<lparr>monitors = (\<lambda>_. newMonitor), faceMesh = False, cvReady = False,
      isMonitoring = False, monitorInterval = False, landmarkHistory = [],
      talkingState = \<lparr>isTalking = False, lastChange = now\<rparr>,
      lastMoonDreamCall = 0, sceneText = None\<rparr>"

text \<open>\<open>render\<close>, as far as the monitor state goes: every monitor gets its card, and the
  scene description element is created with its initial text.\<close>

definition render :: "widget \<Rightarrow> widget" where
  "render w =
     w\<lparr>monitors := (\<lambda>k. (monitors w k)\<lparr>element := True\<rparr>),
       sceneText := Some ''Start monitoring to see AI scene analysis...''\<rparr>"

section \<open>Status aggregator\<close>

definition updateMonitorStatus :: "widget \<Rightarrow> monitor_key \<Rightarrow> string \<Rightarrow> string \<Rightarrow> widget" where
  "updateMonitorStatus w key st cl =
     (let monitor = monitors w key in
      if \<not> element monitor then w
      else w\<lparr>monitors := (monitors w)(key := monitor\<lparr>status := st, statusClass := cl\<rparr>)\<rparr>)"

definition toggleMonitor :: "widget \<Rightarrow> monitor_key \<Rightarrow> widget" where
  "toggleMonitor w key =
     (let monitor = monitors w key;
          monitor' = monitor\<lparr>enabled := \<not> enabled monitor\<rparr>;
          w' = w\<lparr>monitors := (monitors w)(key := monitor')\<rparr>
      in if element monitor' then
           (if enabled monitor' then w' else updateMonitorStatus w' key ''OFF'' ''disabled'')
         else w')"

definition stopMonitoring :: "widget \<Rightarrow> widget" where
  "stopMonitoring w =
     (let w1 = w\<lparr>isMonitoring := False\<rparr>
      in if monitorInterval w1 then w1\<lparr>monitorInterval := False\<rparr> else w1)"

section \<open>Landmark smoother\<close>

text \<open>\<open>frame[i]\<close>: an index past the end reads \<open>undefined\<close>, which is falsy like a hole.\<close>

definition lm_at :: "landmarks \<Rightarrow> nat \<Rightarrow> point option" where
  "lm_at frame i = (if i < length frame then frame ! i else None)"

text \<open>The inner loop over the history, carrying \<open>(sumX, sumY, sumZ, count)\<close>.\<close>

fun sumLoop :: "landmarks list \<Rightarrow> nat \<Rightarrow> real \<times> real \<times> real \<times> nat \<Rightarrow> real \<times> real \<times> real \<times> nat" where
  "sumLoop [] i acc = acc"
| "sumLoop (frame # rest) i (sumX, sumY, sumZ, count) =
     (case lm_at frame i of
        None \<Rightarrow> sumLoop rest i (sumX, sumY, sumZ, count)
      | Some p \<Rightarrow>
          sumLoop rest i
            (sumX + px p, sumY + py p,
             (case pz p of Some v \<Rightarrow> (if v \<noteq> 0 then sumZ + v else sumZ) | None \<Rightarrow> sumZ),
             count + 1))"

definition smoothedAt :: "landmarks list \<Rightarrow> landmarks \<Rightarrow> nat \<Rightarrow> point option" where
  "smoothedAt history newLandmarks i =
     (case sumLoop history i (0, 0, 0, 0) of
        (sumX, sumY, sumZ, count) \<Rightarrow>
          if count > 0
          then Some \<lparr>px = sumX / real count, py = sumY / real count, pz = Some (sumZ / real count)\<rparr>
          else lm_at newLandmarks i)"

definition smoothLandmarks :: "widget \<Rightarrow> landmarks \<Rightarrow> widget \<times> landmarks" where
  "smoothLandmarks w newLandmarks =
     (let pushed = landmarkHistory w @ [newLandmarks];
          history = (if length pushed > 5 then tl pushed else pushed);
          numLandmarks = length newLandmarks
      in (w\<lparr>landmarkHistory := history\<rparr>,
          map (smoothedAt history newLandmarks) [0..<numLandmarks]))"

section \<open>Local analyzers\<close>

definition NOSE_TIP :: nat where "NOSE_TIP = 1"
definition LEFT_FACE :: nat where "LEFT_FACE = 234"
definition RIGHT_FACE :: nat where "RIGHT_FACE = 454"
definition UPPER_LIP :: nat where "UPPER_LIP = 13"
definition LOWER_LIP :: nat where "LOWER_LIP = 14"
definition LEFT_EYE :: nat where "LEFT_EYE = 33"
definition RIGHT_EYE :: nat where "RIGHT_EYE = 263"

definition analyzeOrientation :: "widget \<Rightarrow> landmarks \<Rightarrow> widget" where
  "analyzeOrientation w landmarks =
     (case (lm_at landmarks NOSE_TIP, lm_at landmarks LEFT_FACE, lm_at landmarks RIGHT_FACE) of
        (Some nose, Some left, Some right) \<Rightarrow>
          (let noseToLeft = \<bar>px nose - px left\<bar>;
               noseToRight = \<bar>px nose - px right\<bar>;
               diff = \<bar>noseToLeft - noseToRight\<bar>
           in if diff \<le> 0.15 then updateMonitorStatus w orientation ''STRAIGHT'' ''good''
              else updateMonitorStatus w orientation
                     (if noseToLeft > noseToRight then ''LEFT'' else ''RIGHT'') ''bad'')
      | _ \<Rightarrow> updateMonitorStatus w orientation ''ERROR'' ''warning'')"

text \<open>\<open>now\<close> is the value of \<open>Date.now()\<close> read inside the call.\<close>

definition analyzeTalking :: "widget \<Rightarrow> landmarks \<Rightarrow> int \<Rightarrow> widget" where
  "analyzeTalking w landmarks now =
     (case (lm_at landmarks UPPER_LIP, lm_at landmarks LOWER_LIP) of
        (Some upperLip, Some lowerLip) \<Rightarrow>
          (let distance = \<bar>py upperLip - py lowerLip\<bar>;
               raw = (distance > 0.018);
               ts = talkingState w;
               w1 = (if raw \<noteq> isTalking ts \<and> now - lastChange ts > 150
                     then w\<lparr>talkingState := \<lparr>isTalking = raw, lastChange = now\<rparr>\<rparr>
                     else w)
           in if raw then updateMonitorStatus w1 talking ''TALKING'' ''good''
              else updateMonitorStatus w1 talking ''SILENT'' ''warning'')
      | _ \<Rightarrow> updateMonitorStatus w talking ''ERROR'' ''warning'')"

text \<open>The top-left corner of the 40x40 sample patch along one axis: the local variables
  \<open>x\<close> and \<open>y\<close> of \<open>analyzeFocus\<close>, from the three landmark coordinates and the source's
  extent along that axis.\<close>

definition sampleOrigin :: "real \<Rightarrow> real \<Rightarrow> real \<Rightarrow> nat \<Rightarrow> int" where
  "sampleOrigin eyeL eyeR nose extent =
     (let center = ((eyeL + eyeR + nose) / 3) * real extent;
          size = 40
      in max 0 (min \<lfloor>center - real_of_int size / 2\<rfloor> (int extent - size)))"

text \<open>\<open>this._media.video || this._media.imageCanvas\<close>\<close>

definition focusSource :: "media \<Rightarrow> source option" where
  "focusSource m = (case video m of Some v \<Rightarrow> Some v | None \<Rightarrow> imageCanvas m)"

definition sourceDims :: "source \<Rightarrow> nat \<times> nat" where
  "sourceDims src =
     (if tagName src = ''VIDEO'' then (videoWidth src, videoHeight src)
      else (width src, height src))"

text \<open>Reading \<open>this._media.video\<close> with no media section throws inside the \<open>try\<close>, as does a
  failing OpenCV call; both end in the \<open>catch\<close>, which reports \<open>CV ERROR\<close>.\<close>

definition analyzeFocus :: "widget \<Rightarrow> env \<Rightarrow> landmarks \<Rightarrow> widget" where
  "analyzeFocus w e landmarks =
     (if \<not> cvReady w \<or> \<not> cvDefined e then updateMonitorStatus w focus ''CV N/A'' ''warning''
      else
        (case (lm_at landmarks LEFT_EYE, lm_at landmarks RIGHT_EYE, lm_at landmarks NOSE_TIP) of
           (Some leftEye, Some rightEye, Some nose) \<Rightarrow>
             (case media_of e of
                None \<Rightarrow> updateMonitorStatus w focus ''CV ERROR'' ''warning''
              | Some m \<Rightarrow>
                 (case focusSource m of
                    None \<Rightarrow> updateMonitorStatus w focus ''NO SOURCE'' ''warning''
                  | Some src \<Rightarrow>
                     (case sourceDims src of
                        (sw, sh) \<Rightarrow>
                          if sw = 0 \<or> sh = 0 \<or> sw < 40 \<or> sh < 40
                          then updateMonitorStatus w focus ''WAITING'' ''warning''
                          else
                            (let x0 = sampleOrigin (px leftEye) (px rightEye) (px nose) sw;
                                 y0 = sampleOrigin (py leftEye) (py rightEye) (py nose) sh
                             in case laplacianStdDev e x0 y0 of
                                  None \<Rightarrow> updateMonitorStatus w focus ''CV ERROR'' ''warning''
                                | Some variance \<Rightarrow>
                                    if variance > 12
                                    then updateMonitorStatus w focus ''SHARP'' ''good''
                                    else if variance > 6
                                    then updateMonitorStatus w focus ''OK'' ''warning''
                                    else updateMonitorStatus w focus ''BLURRY'' ''bad''))))
         | _ \<Rightarrow> updateMonitorStatus w focus ''NO DATA'' ''warning''))"

subsection \<open>Double-precision arithmetic\<close>

text \<open>A JavaScript number is an IEEE 754 binary64 value, and every arithmetic operation
  returns the exact result rounded to the nearest such value, ties going to the even
  significand. \<open>toDouble\<close> is that rounding on the reals: the quantum is
  \<open>2 ^ (e - 52)\<close> for a value of binary exponent \<open>e\<close>, and never below \<open>2 ^ -1074\<close>.
  Overflow to infinity is not part of the model; no value in this development comes near
  \<open>2 ^ 1024\<close>.\<close>

definition roundHalfEven :: "real \<Rightarrow> int" where
  "roundHalfEven m =
     (let n = \<lfloor>m\<rfloor>; d = m - real_of_int n
      in if d < 1 / 2 then n
         else if d > 1 / 2 then n + 1
         else if even n then n else n + 1)"

definition pow2 :: "int \<Rightarrow> real" where
  "pow2 k = (if k \<ge> 0 then 2 ^ nat k else 1 / 2 ^ nat (- k))"

text \<open>The binary exponent of a positive value \<open>a\<close>: the \<open>e\<close> with
  \<open>2 ^ e \<le> a < 2 ^ (e + 1)\<close>.\<close>

definition exponentOf :: "real \<Rightarrow> int" where
  "exponentOf a = (if a \<ge> 1 then bitlen \<lfloor>a\<rfloor> - 1 else - bitlen (\<lceil>1 / a\<rceil> - 1))"

definition toDouble :: "real \<Rightarrow> real" where
  "toDouble v =
     (if v = 0 then 0
      else
        (let a = \<bar>v\<bar>;
             q = pow2 (max (exponentOf a - 52) (- 1074))
         in sgn v * (real_of_int (roundHalfEven (a / q)) * q)))"

subsection \<open>Lighting\<close>

text \<open>The luminance loop \<open>for (i = 0; i < data.length; i += 4)\<close>: four bytes per pixel,
  the alpha byte is skipped. The array has \<open>4 * w * h\<close> bytes, so the last equation is
  reached with the empty list only. \<open>rnd\<close> is the rounding applied to the result of each
  arithmetic operation and to each decimal literal; the code runs with \<open>toDouble\<close>.\<close>

fun brightnessLoop :: "(real \<Rightarrow> real) \<Rightarrow> 8 word list \<Rightarrow> real \<Rightarrow> real" where
  "brightnessLoop rnd (r # g # b # a # rest) totalBrightness =
     brightnessLoop rnd rest
       (rnd (totalBrightness +
             rnd (rnd (rnd (rnd 0.299 * real (unat r)) + rnd (rnd 0.587 * real (unat g))) +
                  rnd (rnd 0.114 * real (unat b)))))"
| "brightnessLoop rnd _ totalBrightness = totalBrightness"

definition getImageData :: "source \<Rightarrow> nat \<Rightarrow> nat \<Rightarrow> 8 word list" where
  "getImageData src w h = map (rgba src) [0..<4 * w * h]"

text \<open>\<open>totalBrightness / pixelCount\<close> with \<open>pixelCount = data.length / 4\<close>.\<close>

definition avgBrightnessWith :: "(real \<Rightarrow> real) \<Rightarrow> 8 word list \<Rightarrow> real" where
  "avgBrightnessWith rnd data = rnd (brightnessLoop rnd data 0 / (real (length data) / 4))"

definition avgBrightness :: "8 word list \<Rightarrow> real" where
  "avgBrightness data = avgBrightnessWith toDouble data"

text \<open>The source to draw, with its dimensions; \<open>None\<close> is the final \<open>else\<close> branch.\<close>

definition lightingSource :: "env \<Rightarrow> (nat \<times> nat \<times> source) option" where
  "lightingSource e =
     (let vid = (case media_of e of Some m \<Rightarrow> video m | None \<Rightarrow> None);
          canvas = (case media_of e of Some m \<Rightarrow> imageCanvas m | None \<Rightarrow> None)
      in case vid of
           Some s \<Rightarrow>
             if tagName s = ''VIDEO'' \<and> videoWidth s > 0 then Some (videoWidth s, videoHeight s, s)
             else (case canvas of
                     Some c \<Rightarrow> if width c > 0 then Some (width c, height c, c) else None
                   | None \<Rightarrow> None)
         | None \<Rightarrow>
             (case canvas of
                Some c \<Rightarrow> if width c > 0 then Some (width c, height c, c) else None
              | None \<Rightarrow> None))"

text \<open>\<open>getImageData\<close> throws on a zero height; the \<open>catch\<close> reports \<open>ERROR\<close>.\<close>

definition analyzeLighting :: "widget \<Rightarrow> env \<Rightarrow> widget" where
  "analyzeLighting w e =
     (case lightingSource e of
        None \<Rightarrow> updateMonitorStatus w lighting ''N/A'' ''disabled''
      | Some (sw, sh, drawSource) \<Rightarrow>
          if sh = 0 then updateMonitorStatus w lighting ''ERROR'' ''warning''
          else
            (let L = avgBrightness (getImageData drawSource sw sh)
             in if L < 50 then updateMonitorStatus w lighting ''DARK'' ''bad''
                else if L < 90 then updateMonitorStatus w lighting ''DIM'' ''warning''
                else if L > 220 then updateMonitorStatus w lighting ''OVEREXPOSED'' ''bad''
                else if L > 180 then updateMonitorStatus w lighting ''BRIGHT'' ''warning''
                else updateMonitorStatus w lighting ''GOOD'' ''good''))"

text \<open>The callback of the landmark detector; \<open>mfl\<close> is \<open>results.multiFaceLandmarks\<close>.\<close>

definition processFrameResults :: "widget \<Rightarrow> env \<Rightarrow> int \<Rightarrow> landmarks list option \<Rightarrow> widget" where
  "processFrameResults w e now mfl =
     (if \<not> isMonitoring w then w
      else
        (case mfl of
           Some (first # _) \<Rightarrow>
             (case smoothLandmarks w first of
                (w0, landmarks) \<Rightarrow>
                  (let w1 = (if enabled (monitors w0 orientation)
                             then analyzeOrientation w0 landmarks else w0);
                       w2 = (if enabled (monitors w1 talking)
                             then analyzeTalking w1 landmarks now else w1)
                   in if enabled (monitors w2 focus) \<and> cvReady w2
                      then analyzeFocus w2 e landmarks else w2))
         | _ \<Rightarrow>
             (let w1 = (if enabled (monitors w orientation)
                        then updateMonitorStatus w orientation ''NO FACE'' ''bad'' else w);
                  w2 = (if enabled (monitors w1 talking)
                        then updateMonitorStatus w1 talking ''NO FACE'' ''bad'' else w1)
              in if enabled (monitors w2 focus)
                 then updateMonitorStatus w2 focus ''NO FACE'' ''bad'' else w2)))"

section \<open>Remote analyzers\<close>

text \<open>A JavaScript string is truthy unless it is missing or empty.\<close>

definition truthy :: "string option \<Rightarrow> bool" where
  "truthy s = (case s of None \<Rightarrow> False | Some t \<Rightarrow> t \<noteq> [])"

definition getCurrentFrame :: "env \<Rightarrow> string option" where
  "getCurrentFrame e =
     (case media_of e of
        None \<Rightarrow> None
      | Some m \<Rightarrow>
          if stream e \<and> video m \<noteq> None then Some (captureFrame e)
          else if truthy (currentImage e) then currentImage e
          else None)"

text \<open>The synchronous part of \<open>runMoonDreamAnalysis\<close> changes no monitor; it only
  dispatches requests, whose callbacks are \<open>detectThen\<close>, \<open>detectCatch\<close>, \<open>captionThen\<close>
  and \<open>captionCatch\<close> below.\<close>

definition runMoonDreamAnalysis :: "widget \<Rightarrow> env \<Rightarrow> async_op list" where
  "runMoonDreamAnalysis w e =
     (case getCurrentFrame e of
        None \<Rightarrow> []
      | Some frame \<Rightarrow>
          if frame = [] then []
          else
            (let needsDetect = (enabled (monitors w presence) \<or> enabled (monitors w composition))
             in (if needsDetect then [Detect frame] else []) @
                (if enabled (monitors w sceneContext) then [Caption frame] else [])))"

record box =
  x_min :: real
  y_min :: real
  x_max :: real
  y_max :: real

text \<open>The issue tags. The arrows of the source (U+2192, U+2190, U+2193, U+2191) are
  written as their UTF-8 bytes.\<close>

definition tag_RIGHT :: string where
  "tag_RIGHT = [CHR 0xE2, CHR 0x86, CHR 0x92] @ '' RIGHT''"

definition tag_LEFT :: string where
  "tag_LEFT = [CHR 0xE2, CHR 0x86, CHR 0x90] @ '' LEFT''"

definition tag_DOWN :: string where
  "tag_DOWN = [CHR 0xE2, CHR 0x86, CHR 0x93] @ '' DOWN''"

definition tag_UP :: string where
  "tag_UP = [CHR 0xE2, CHR 0x86, CHR 0x91] @ '' UP''"

text \<open>\<open>issues.join(' ')\<close>\<close>

fun join :: "string list \<Rightarrow> string" where
  "join [] = []"
| "join [s] = s"
| "join (s # t # rest) = s @ '' '' @ join (t # rest)"

text \<open>The list \<open>issues\<close> after the pushes of the composition analysis.\<close>

definition compositionIssues :: "box \<Rightarrow> string list" where
  "compositionIssues face =
     (let centerX = (x_min face + x_max face) / 2;
          centerY = (y_min face + y_max face) / 2;
          faceWidth = x_max face - x_min face;
          faceHeight = y_max face - y_min face;
          issues0 = [];
          issues1 = (if faceWidth > 0.5 \<or> faceHeight > 0.6 then issues0 @ [''TOO CLOSE'']
                     else if faceWidth < 0.15 \<and> faceHeight < 0.2 then issues0 @ [''TOO FAR'']
                     else issues0);
          issues2 = (if centerX < 0.3 then issues1 @ [tag_RIGHT]
                     else if centerX > 0.7 then issues1 @ [tag_LEFT]
                     else issues1);
          issues3 = (if centerY < 0.25 then issues2 @ [tag_DOWN]
                     else if centerY > 0.75 then issues2 @ [tag_UP]
                     else issues2)
      in issues3)"

text \<open>The \<open>then\<close> callback of \<open>ApiClient.detect\<close>; the argument is \<open>response.objects\<close>.
  The overlay drawn at the end of the callback touches the canvas only and is left out.\<close>

definition detectThen :: "widget \<Rightarrow> box list option \<Rightarrow> widget" where
  "detectThen w response_objects =
     (let objects = (case response_objects of Some os \<Rightarrow> os | None \<Rightarrow> []);
          w1 = (if enabled (monitors w presence)
                then (if length objects > 0
                      then updateMonitorStatus w presence ''PRESENT'' ''good''
                      else updateMonitorStatus w presence ''ABSENT'' ''bad'')
                else w)
      in if enabled (monitors w1 composition)
         then (case objects of
                 [] \<Rightarrow> updateMonitorStatus w1 composition ''NO FACE'' ''bad''
               | face # _ \<Rightarrow>
                   (let issues = compositionIssues face
                    in if length issues = 0
                       then updateMonitorStatus w1 composition ''GOOD'' ''good''
                       else updateMonitorStatus w1 composition (join issues) ''bad''))
         else w1)"

definition detectCatch :: "widget \<Rightarrow> widget" where
  "detectCatch w =
     (let w1 = (if enabled (monitors w presence)
                then updateMonitorStatus w presence ''ERROR'' ''warning'' else w)
      in if enabled (monitors w1 composition)
         then updateMonitorStatus w1 composition ''ERROR'' ''warning'' else w1)"

text \<open>The \<open>then\<close> callback of \<open>ApiClient.caption\<close>; the argument is \<open>response.caption\<close>.\<close>

definition captionThen :: "widget \<Rightarrow> string option \<Rightarrow> widget" where
  "captionThen w response_caption =
     (let caption = (case response_caption of
                       Some c \<Rightarrow> (if c \<noteq> [] then c else ''No description'')
                     | None \<Rightarrow> ''No description'');
          w1 = updateMonitorStatus w sceneContext ''UPDATED'' ''good''
      in case sceneText w1 of
           Some _ \<Rightarrow> w1\<lparr>sceneText := Some caption\<rparr>
         | None \<Rightarrow> w1)"

definition captionCatch :: "widget \<Rightarrow> widget" where
  "captionCatch w = updateMonitorStatus w sceneContext ''ERROR'' ''warning''"

section \<open>Scheduler and throttle\<close>

definition runMonitoringCycle :: "widget \<Rightarrow> env \<Rightarrow> int \<Rightarrow> widget \<times> async_op list" where
  "runMonitoringCycle w e now =
     (if \<not> isMonitoring w then (w, [])
      else
        (let vid = (case media_of e of Some m \<Rightarrow> video m | None \<Rightarrow> None);
             sent = (if faceMesh w \<and> vid \<noteq> None \<and> stream e then [FaceMeshSend] else []);
             w1 = (if enabled (monitors w lighting) then analyzeLighting w e else w)
         in if now - lastMoonDreamCall w1 > 2000
            then (let w2 = w1\<lparr>lastMoonDreamCall := now\<rparr>
                  in (w2, sent @ runMoonDreamAnalysis w2 e))
            else (w1, sent)))"

definition startMonitoring :: "widget \<Rightarrow> env \<Rightarrow> int \<Rightarrow> widget \<times> async_op list" where
  "startMonitoring w e now =
     (if \<not> stream e \<and> \<not> truthy (currentImage e) then (w, [])
      else
        (let w1 = w\<lparr>isMonitoring := True\<rparr>;
             w2 = foldl (\<lambda>s key. if enabled (monitors s key)
                                   then updateMonitorStatus s key ''Analyzing...'' ''warning''
                                   else s) w1 allKeys
         in case runMonitoringCycle w2 e now of
              (w3, ops) \<Rightarrow> (w3\<lparr>monitorInterval := True\<rparr>, ops)))"

definition toggleMonitoring :: "widget \<Rightarrow> env \<Rightarrow> int \<Rightarrow> widget \<times> async_op list" where
  "toggleMonitoring w e now =
     (if isMonitoring w then (stopMonitoring w, []) else startMonitoring w e now)"

section \<open>The widget as an event-driven machine\<close>

text \<open>Everything that can happen to the widget: the two click handlers, \<open>unmount\<close>
  (which stops monitoring), a tick of the 1500 ms interval timer, and the completion
  callbacks of the asynchronous operations. Each event carries what the handler reads from
  outside (surroundings, clock, response).\<close>

datatype event =
    ToggleMonitor monitor_key
  | ToggleMonitoring env int
  | Unmount
  | Tick env int
  | FaceMeshResults env int "landmarks list option"
  | DetectResolved "box list option"
  | DetectRejected
  | CaptionResolved "string option"
  | CaptionRejected

fun step :: "widget \<Rightarrow> event \<Rightarrow> widget \<times> async_op list" where
  "step w (ToggleMonitor key) = (toggleMonitor w key, [])"
| "step w (ToggleMonitoring e now) = toggleMonitoring w e now"
| "step w Unmount = (stopMonitoring w, [])"
| "step w (Tick e now) = runMonitoringCycle w e now"
| "step w (FaceMeshResults e now mfl) = (processFrameResults w e now mfl, [])"
| "step w (DetectResolved objs) = (detectThen w objs, [])"
| "step w DetectRejected = (detectCatch w, [])"
| "step w (CaptionResolved cap) = (captionThen w cap, [])"
| "step w CaptionRejected = (captionCatch w, [])"

text \<open>Running a trace: the final widget and, per event, the operations it dispatched.\<close>

fun run :: "widget \<Rightarrow> event list \<Rightarrow> widget \<times> async_op list list" where
  "run w [] = (w, [])"
| "run w (ev # evs) =
     (case step w ev of
        (w1, ops) \<Rightarrow> (case run w1 evs of (w2, opss) \<Rightarrow> (w2, ops # opss)))"

fun isRemote :: "async_op \<Rightarrow> bool" where
  "isRemote FaceMeshSend = False"
| "isRemote (Detect _) = True"
| "isRemote (Caption _) = True"

fun isDetect :: "async_op \<Rightarrow> bool" where
  "isDetect (Detect _) = True"
| "isDetect _ = False"

fun isCaption :: "async_op \<Rightarrow> bool" where
  "isCaption (Caption _) = True"
| "isCaption _ = False"

text \<open>How many events of a trace issued a batched remote call.\<close>

definition batchCount :: "async_op list list \<Rightarrow> nat" where
  "batchCount opss = length (filter (\<lambda>ops. list_ex isRemote ops) opss)"

text \<open>Events that can run a monitoring cycle.\<close>

fun isCycle :: "event \<Rightarrow> bool" where
  "isCycle (Tick _ _) = True"
| "isCycle (ToggleMonitoring _ _) = True"
| "isCycle _ = False"

section \<open>Reference definitions\<close>

text \<open>The landmarks that the frames of a history define at index \<open>i\<close>, oldest first.\<close>

definition definedAt :: "landmarks list \<Rightarrow> nat \<Rightarrow> point list" where
  "definedAt history i = List.map_filter (\<lambda>frame. lm_at frame i) history"

definition mean :: "real list \<Rightarrow> real" where
  "mean vs = sum_list vs / real (length vs)"

text \<open>The depths that the landmarks of a list carry.\<close>

definition depths :: "point list \<Rightarrow> real list" where
  "depths ps = List.map_filter pz ps"

text \<open>The component-wise arithmetic mean of a list of landmarks: each component is
  averaged over the landmarks that have it, so the mean has a depth only if some landmark
  has one.\<close>

definition meanPoint :: "point list \<Rightarrow> point" where
  "meanPoint ps =
     \<lparr>px = mean (map px ps), py = mean (map py ps),
      pz = (if depths ps = [] then None else Some (mean (depths ps)))\<rparr>"




text \<open>The luminance \<open>0.299 R + 0.587 G + 0.114 B\<close> of pixel \<open>i\<close> of a source, and the
  average luminance over the \<open>w * h\<close> pixels of a frame, as the specification words them.
  \<open>rnd\<close> is the rounding of the arithmetic: the identity gives the exact value, \<open>toDouble\<close>
  the value in double precision.\<close>

definition pixelLuminance :: "(real \<Rightarrow> real) \<Rightarrow> source \<Rightarrow> nat \<Rightarrow> real" where
  "pixelLuminance rnd src i =
     rnd (rnd (rnd (rnd 0.299 * real (unat (rgba src (4 * i)))) +
               rnd (rnd 0.587 * real (unat (rgba src (4 * i + 1))))) +
          rnd (rnd 0.114 * real (unat (rgba src (4 * i + 2)))))"

definition spec_luminance :: "(real \<Rightarrow> real) \<Rightarrow> source \<Rightarrow> nat \<Rightarrow> nat \<Rightarrow> real" where
  "spec_luminance rnd src w h =
     rnd (foldl (\<lambda>total i. rnd (total + pixelLuminance rnd src i)) 0 [0..<w * h]
          / real (w * h))"

text \<open>The variance of the Laplacian response over the sample patch: the square of the
  standard deviation that \<open>cv.meanStdDev\<close> reports.\<close>

definition laplacianVariance :: "env \<Rightarrow> int \<Rightarrow> int \<Rightarrow> real option" where
  "laplacianVariance e x0 y0 = map_option (\<lambda>s. s ^ 2) (laplacianStdDev e x0 y0)"

section \<open>A concrete session\<close>

text \<open>A live camera of 2x1 pixels showing mid grey, a rendered widget, and the widget
  after \<open>Start Monitoring\<close> was clicked at time 1000500.\<close>

definition liveSource :: source where
  "liveSource =
     \<lparr>tagName = ''VIDEO'', videoWidth = 2, videoHeight = 1, width = 0, height = 0,
      rgba = (\<lambda>_. 120)\<rparr>"

definition liveEnv :: env where
  "liveEnv =
     \<lparr>media_of = Some \<lparr>video = Some liveSource, imageCanvas = None\<rparr>,
      stream = True, currentImage = None, captureFrame = ''data:image/jpeg;base64,AA'',
      cvDefined = True, laplacianStdDev = (\<lambda>_ _. Some 13)\<rparr>"

text \<open>The same surroundings after the camera and the image are gone: no frame to send.\<close>

definition noFrameEnv :: env where
  "noFrameEnv =
     \<lparr>media_of = Some \<lparr>video = Some liveSource, imageCanvas = None\<rparr>,
      stream = False, currentImage = None, captureFrame = ''data:image/jpeg;base64,AA'',
      cvDefined = True, laplacianStdDev = (\<lambda>_ _. Some 13)\<rparr>"

definition renderedWidget :: widget where
  "renderedWidget = render (ProductionMonitorWidget 1000000)"

definition startedWidget :: widget where
  "startedWidget = fst (startMonitoring renderedWidget liveEnv 1000500)"

text \<open>A face box of width 0.6 and height 0.4 centred at (0.5, 0.5).\<close>

definition closeFace :: box where
  "closeFace = \<lparr>x_min = 0.2, y_min = 0.3, x_max = 0.8, y_max = 0.7\<rparr>"


text \<open>A camera frame of the given size whose pixel array is the given list of bytes.\<close>

definition bytesSource :: "nat \<Rightarrow> nat \<Rightarrow> 8 word list \<Rightarrow> source" where
  "bytesSource w h bytes =
     \<lparr>tagName = ''VIDEO'', videoWidth = w, videoHeight = h, width = 0, height = 0,
      rgba = (\<lambda>i. if i < length bytes then bytes ! i else 0)\<rparr>"

definition bytesEnv :: "nat \<Rightarrow> nat \<Rightarrow> 8 word list \<Rightarrow> env" where
  "bytesEnv w h bytes =
     \<lparr>media_of = Some \<lparr>video = Some (bytesSource w h bytes), imageCanvas = None\<rparr>,
      stream = True, currentImage = None, captureFrame = ''data:image/jpeg;base64,AA'',
      cvDefined = True, laplacianStdDev = (\<lambda>_ _. None)\<rparr>"

text \<open>A landmark frame of 478 points, all at the given position.\<close>

definition faceAt :: "real \<Rightarrow> real \<Rightarrow> landmarks" where
  "faceAt a b = replicate 478 (Some \<lparr>px = a, py = b, pz = Some 0\<rparr>)"

text \<open>A frame with the upper lip at height \<open>0.5\<close> and the lower lip at \<open>0.5 + gap\<close>.\<close>

definition lipsFrame :: "real \<Rightarrow> landmarks" where
  "lipsFrame gap =
     (faceAt 0.5 0.5)[LOWER_LIP := Some \<lparr>px = 0.5, py = 0.5 + gap, pz = Some 0\<rparr>]"

text \<open>Surroundings with a 640x480 camera whose sample patch has the given Laplacian value.\<close>

definition focusEnv :: "real \<Rightarrow> env" where
  "focusEnv v =
     \<lparr>media_of = Some \<lparr>video = Some \<lparr>tagName = ''VIDEO'', videoWidth = 640, videoHeight = 480,
                                        width = 0, height = 0, rgba = (\<lambda>_. 120)\<rparr>,
                         imageCanvas = None\<rparr>,
      stream = True, currentImage = None, captureFrame = ''data:image/jpeg;base64,AA'',
      cvDefined = True, laplacianStdDev = (\<lambda>_ _. Some v)\<rparr>"

text \<open>Three landmarks (the second without depth) and a widget whose history holds two
  earlier frames: one with two landmarks, one with a single landmark.\<close>

definition farPoint :: point where
  "farPoint = \<lparr>px = 0.25, py = 0.5, pz = Some 4\<rparr>"

definition flatPoint :: point where
  "flatPoint = \<lparr>px = 0.5, py = 0.75, pz = None\<rparr>"

definition nearPoint :: point where
  "nearPoint = \<lparr>px = 0.75, py = 0.25, pz = Some 2\<rparr>"

definition warmWidget :: widget where
  "warmWidget =
     renderedWidget\<lparr>landmarkHistory := [[Some farPoint, Some farPoint], [Some flatPoint]]\<rparr>"

text \<open>The started session once OpenCV and the face mesh have loaded.\<close>

definition cvWidget :: widget where
  "cvWidget = startedWidget\<lparr>cvReady := True, faceMesh := True\<rparr>"

section \<open>Basic facts about the status aggregator\<close>

lemma monitors_updateMonitorStatus:
  "monitors (updateMonitorStatus w key st cl) k =
     (if k = key \<and> element (monitors w key)
      then (monitors w key)\<lparr>status := st, statusClass := cl\<rparr>
      else monitors w k)"
  by (simp add: updateMonitorStatus_def Let_def)

lemma updateMonitorStatus_fields [simp]:
  "isMonitoring (updateMonitorStatus w key st cl) = isMonitoring w"
  "lastMoonDreamCall (updateMonitorStatus w key st cl) = lastMoonDreamCall w"
  "talkingState (updateMonitorStatus w key st cl) = talkingState w"
  "landmarkHistory (updateMonitorStatus w key st cl) = landmarkHistory w"
  "cvReady (updateMonitorStatus w key st cl) = cvReady w"
  "faceMesh (updateMonitorStatus w key st cl) = faceMesh w"
  "monitorInterval (updateMonitorStatus w key st cl) = monitorInterval w"
  by (simp_all add: updateMonitorStatus_def Let_def)

lemma analyzeLighting_last [simp]:
  "lastMoonDreamCall (analyzeLighting w e) = lastMoonDreamCall w"
  by (simp add: analyzeLighting_def Let_def split: option.splits prod.splits)

lemma analyzeOrientation_last [simp]:
  "lastMoonDreamCall (analyzeOrientation w l) = lastMoonDreamCall w"
  by (simp add: analyzeOrientation_def Let_def split: option.splits prod.splits)

lemma analyzeTalking_last [simp]:
  "lastMoonDreamCall (analyzeTalking w l now) = lastMoonDreamCall w"
  by (simp add: analyzeTalking_def Let_def split: option.splits prod.splits)

lemma analyzeFocus_last [simp]:
  "lastMoonDreamCall (analyzeFocus w e l) = lastMoonDreamCall w"
  by (simp add: analyzeFocus_def Let_def split: option.splits prod.splits)

lemma processFrameResults_last [simp]:
  "lastMoonDreamCall (processFrameResults w e now mfl) = lastMoonDreamCall w"
  by (simp add: processFrameResults_def smoothLandmarks_def Let_def split: option.splits list.splits prod.splits)

lemma detectThen_last [simp]:
  "lastMoonDreamCall (detectThen w r) = lastMoonDreamCall w"
  by (simp add: detectThen_def Let_def split: option.splits list.splits)

lemma detectCatch_last [simp]:
  "lastMoonDreamCall (detectCatch w) = lastMoonDreamCall w"
  by (simp add: detectCatch_def Let_def)

lemma captionThen_last [simp]:
  "lastMoonDreamCall (captionThen w r) = lastMoonDreamCall w"
  by (simp add: captionThen_def Let_def split: option.splits)

lemma captionCatch_last [simp]:
  "lastMoonDreamCall (captionCatch w) = lastMoonDreamCall w"
  by (simp add: captionCatch_def)

lemma toggleMonitor_last [simp]:
  "lastMoonDreamCall (toggleMonitor w k) = lastMoonDreamCall w"
  by (simp add: toggleMonitor_def Let_def)

lemma stopMonitoring_last [simp]:
  "lastMoonDreamCall (stopMonitoring w) = lastMoonDreamCall w"
  by (simp add: stopMonitoring_def Let_def)

lemma cycle_last:
  "lastMoonDreamCall (fst (runMonitoringCycle w e now)) =
     (if isMonitoring w \<and> now - lastMoonDreamCall w > 2000 then now else lastMoonDreamCall w)"
  by (simp add: runMonitoringCycle_def Let_def)

section \<open>Evaluating double-precision arithmetic\<close>

text \<open>Rules that let the simplifier evaluate \<open>toDouble\<close> on a numeral.\<close>

lemma bitlen_numeral: "bitlen (numeral k) = bitlen (numeral k div 2) + 1"
  by (subst compute_bitlen) simp

lemma bitlen_one: "bitlen 1 = 1"
  by (subst compute_bitlen) simp

lemmas toDouble_eval = toDouble_def exponentOf_def pow2_def roundHalfEven_def Let_def
  bitlen_numeral bitlen_one

text \<open>Reference values of the rounding: the three luminance weights and one tenth as the
  doubles nearest to them, values that are doubles already, and two ties between
  neighbouring doubles, which go to the even significand.\<close>

lemma toDouble_weights:
  "toDouble 0.299 = 5386305154335113 / 18014398509481984"
  "toDouble 0.587 = 2643612981266481 / 4503599627370496"
  "toDouble 0.114 = 8214565720323785 / 72057594037927936"
  by (simp_all add: toDouble_eval)

lemma toDouble_tenth: "toDouble 0.1 = 3602879701896397 / 36028797018963968"
  by (simp add: toDouble_eval)

lemma toDouble_exact: "toDouble 50 = 50" "toDouble 0.5 = 0.5" "toDouble (- 3) = - 3"
  by (simp_all add: toDouble_eval)

lemma toDouble_ties:
  "toDouble 9007199254740993 = 9007199254740992" "toDouble 9007199254740995 = 9007199254740996"
  by (simp_all add: toDouble_eval)

subsection \<open>The luminance loop and the average as the specification words it\<close>

lemma upt_four: "[4 * k..<4 * (k + Suc n)] =
    4 * k # (4 * k + 1) # (4 * k + 2) # (4 * k + 3) # [4 * (k + 1)..<4 * (k + 1 + n)]"
proof -
  have e: "Suc (Suc (Suc (Suc (4 * k)))) = 4 * (k + 1)" by simp
  have "[4 * k..<4 * (k + Suc n)] =
      4 * k # Suc (4 * k) # Suc (Suc (4 * k)) # Suc (Suc (Suc (4 * k))) #
      [Suc (Suc (Suc (Suc (4 * k))))..<4 * (k + Suc n)]"
    by (simp add: upt_conv_Cons)
  then show ?thesis unfolding e by simp
qed

lemma brightnessLoop_pixels:
  "brightnessLoop rnd (map (rgba src) [4 * k..<4 * (k + n)]) acc =
     foldl (\<lambda>t i. rnd (t + pixelLuminance rnd src i)) acc [k..<k + n]"
proof (induction n arbitrary: k acc)
  case 0
  then show ?case by simp
next
  case (Suc n)
  have u: "[k..<k + Suc n] = k # [k + 1..<k + 1 + n]"
    by (simp add: upt_conv_Cons)
  show ?case
    unfolding upt_four u
    using Suc.IH [of "k + 1"]
    by (simp add: pixelLuminance_def)
qed

lemma avgBrightness_spec:
  "avgBrightnessWith rnd (getImageData src w h) = spec_luminance rnd src w h"
proof -
  have "brightnessLoop rnd (map (rgba src) [4 * 0..<4 * (0 + w * h)]) 0 =
     foldl (\<lambda>t i. rnd (t + pixelLuminance rnd src i)) 0 [0..<0 + w * h]"
    by (rule brightnessLoop_pixels)
  then show ?thesis
    by (simp add: avgBrightnessWith_def getImageData_def spec_luminance_def mult.assoc)
qed

lemma foldl_plus: "foldl (\<lambda>t i. t + f i) a xs = a + sum_list (map f xs)"
  by (induction xs arbitrary: a) (simp_all add: add.assoc)

lemma spec_luminance_exact:
  "spec_luminance id src w h =
     (\<Sum>i<w * h. 0.299 * real (unat (rgba src (4 * i)))
                + 0.587 * real (unat (rgba src (4 * i + 1)))
                + 0.114 * real (unat (rgba src (4 * i + 2)))) / real (w * h)"
proof -
  have a: "sum_list (map f [0..<n]) = sum f {..<n}" for f :: "nat \<Rightarrow> real" and n
    by (simp add: interv_sum_list_conv_sum_set_nat atLeast0LessThan)
  show ?thesis
    by (simp add: spec_luminance_def foldl_plus a pixelLuminance_def)
qed

subsection \<open>Luminance of concrete frames\<close>

lemma bytes_lightingSource:
  "0 < w \<Longrightarrow> lightingSource (bytesEnv w h bytes) = Some (w, h, bytesSource w h bytes)"
  by (simp add: lightingSource_def bytesEnv_def bytesSource_def Let_def)

lemma upt_0_4: "[0..<4] = [0, 1, 2, 3::nat]"
  by (simp add: upt_rec)

lemma upt_0_8: "[0..<8] = [0, 1, 2, 3, 4, 5, 6, 7::nat]"
  by (simp add: upt_rec)

lemma one_pixel_data:
  "getImageData (bytesSource 1 1 [r, g, b, a]) 1 1 = [r, g, b, a]"
  by (simp add: getImageData_def bytesSource_def upt_0_4)

lemma lum_49: "avgBrightness [49, 49, 49, 255] = 49"
  by (simp add: avgBrightness_def avgBrightnessWith_def toDouble_eval)

lemma lum_boundary: "avgBrightness [5, 77, 29, 255] = 7036874417766399 / 140737488355328"
  by (simp add: avgBrightness_def avgBrightnessWith_def toDouble_eval)

lemma lum_boundary_exact: "spec_luminance id (bytesSource 1 1 [5, 77, 29, 255]) 1 1 = 50"
  by (simp add: spec_luminance_def pixelLuminance_def bytesSource_def)

lemma live_data: "getImageData liveSource 2 1 = [120, 120, 120, 120, 120, 120, 120, 120]"
  by (simp add: getImageData_def liveSource_def upt_0_8)

lemma lum_live: "avgBrightness (getImageData liveSource 2 1) = 120"
  unfolding live_data
  by (simp add: avgBrightness_def avgBrightnessWith_def toDouble_eval)


subsection \<open>The started session, evaluated\<close>

lemma live_lightingSource: "lightingSource liveEnv = Some (2, 1, liveSource)"
  by (simp add: lightingSource_def liveEnv_def liveSource_def Let_def)

lemma noFrame_lightingSource: "lightingSource noFrameEnv = Some (2, 1, liveSource)"
  by (simp add: lightingSource_def noFrameEnv_def liveSource_def Let_def)

lemma analyzeLighting_live:
  "analyzeLighting w liveEnv = updateMonitorStatus w lighting ''GOOD'' ''good''"
  by (simp only: analyzeLighting_def live_lightingSource option.case prod.case Let_def lum_live)
     simp

lemma analyzeLighting_noFrame:
  "analyzeLighting w noFrameEnv = updateMonitorStatus w lighting ''GOOD'' ''good''"
  by (simp only: analyzeLighting_def noFrame_lightingSource option.case prod.case Let_def
      lum_live) simp

lemma liveEnv_reads:
  "media_of liveEnv = Some \<lparr>video = Some liveSource, imageCanvas = None\<rparr>"
  "stream liveEnv" "currentImage liveEnv = None"
  "getCurrentFrame liveEnv = Some ''data:image/jpeg;base64,AA''"
  by (simp_all add: liveEnv_def getCurrentFrame_def)

lemma noFrameEnv_reads:
  "media_of noFrameEnv = Some \<lparr>video = Some liveSource, imageCanvas = None\<rparr>"
  "\<not> stream noFrameEnv" "currentImage noFrameEnv = None"
  "getCurrentFrame noFrameEnv = None"
  by (simp_all add: noFrameEnv_def getCurrentFrame_def truthy_def)

lemma startMonitoring_live:
  "startMonitoring renderedWidget liveEnv 1000500 =
     (\<lparr>monitors = (\<lambda>k. \<lparr>enabled = True,
                           status = (if k = lighting then ''GOOD'' else ''Analyzing...''),
                           statusClass = (if k = lighting then ''good'' else ''warning''),
                           element = True\<rparr>),
       faceMesh = False, cvReady = False, isMonitoring = True, monitorInterval = True,
       landmarkHistory = [], talkingState = \<lparr>isTalking = False, lastChange = 1000000\<rparr>,
       lastMoonDreamCall = 1000500,
       sceneText = Some ''Start monitoring to see AI scene analysis...''\<rparr>,
      [Detect ''data:image/jpeg;base64,AA'', Caption ''data:image/jpeg;base64,AA''])"
  apply (auto simp add: startMonitoring_def renderedWidget_def render_def
      ProductionMonitorWidget_def newMonitor_def allKeys_def updateMonitorStatus_def
      runMonitoringCycle_def analyzeLighting_live runMoonDreamAnalysis_def
      liveEnv_reads Let_def fun_eq_iff)
  subgoal for k by (cases k) simp_all
  done

text \<open>The started widget in closed form; later evaluations start from it.\<close>

lemma startedWidget_code [code]:
  "startedWidget =
     \<lparr>monitors = (\<lambda>k. \<lparr>enabled = True,
                           status = (if k = lighting then ''GOOD'' else ''Analyzing...''),
                           statusClass = (if k = lighting then ''good'' else ''warning''),
                           element = True\<rparr>),
       faceMesh = False, cvReady = False, isMonitoring = True, monitorInterval = True,
       landmarkHistory = [], talkingState = \<lparr>isTalking = False, lastChange = 1000000\<rparr>,
       lastMoonDreamCall = 1000500,
       sceneText = Some ''Start monitoring to see AI scene analysis...''\<rparr>"
  by (simp add: startedWidget_def startMonitoring_live)

lemma started_ops:
  "snd (startMonitoring renderedWidget liveEnv 1000500) =
     [Detect ''data:image/jpeg;base64,AA'', Caption ''data:image/jpeg;base64,AA'']"
  by (simp add: startMonitoring_live)

section \<open>Stopping the monitor\<close>




section \<open>Late callbacks\<close>

text \<open>
  C2: toggling a monitor off sets \<open>OFF\<close>/\<open>disabled\<close> at once, and no write pending at that
  moment overwrites it while the monitor stays disabled. The code breaks this for the scene
  context monitor: starting the session dispatches a caption request; the monitor is then
  toggled off and shows \<open>OFF\<close>/\<open>disabled\<close>; when the caption arrives, its callback writes
  \<open>UPDATED\<close>/\<open>good\<close> although the monitor is still disabled. (The callback of the detect
  request reads the enabled flags when it runs; the caption request reads the flag only
  when it is dispatched.)
\<close>

theorem toggle_off_overwritten_by_caption:
  "list_ex isCaption (snd (startMonitoring renderedWidget liveEnv 1000500)) \<and>
   status (monitors (toggleMonitor startedWidget sceneContext) sceneContext) = ''OFF'' \<and>
   statusClass (monitors (toggleMonitor startedWidget sceneContext) sceneContext) = ''disabled'' \<and>
   \<not> enabled (monitors (captionThen (toggleMonitor startedWidget sceneContext) (Some ''A desk''))
                  sceneContext) \<and>
   status (monitors (captionThen (toggleMonitor startedWidget sceneContext) (Some ''A desk''))
             sceneContext) = ''UPDATED'' \<and>
   statusClass (monitors (captionThen (toggleMonitor startedWidget sceneContext) (Some ''A desk''))
                  sceneContext) = ''good''"
proof -
  have dispatched: "list_ex isCaption (snd (startMonitoring renderedWidget liveEnv 1000500))"
    by (simp add: started_ops)
  have off: "status (monitors (toggleMonitor startedWidget sceneContext) sceneContext) = ''OFF'' \<and>
    statusClass (monitors (toggleMonitor startedWidget sceneContext) sceneContext) = ''disabled''"
    by code_simp
  have late: "\<not> enabled (monitors (captionThen (toggleMonitor startedWidget sceneContext)
                                        (Some ''A desk'')) sceneContext) \<and>
    status (monitors (captionThen (toggleMonitor startedWidget sceneContext) (Some ''A desk''))
              sceneContext) = ''UPDATED'' \<and>
    statusClass (monitors (captionThen (toggleMonitor startedWidget sceneContext) (Some ''A desk''))
                   sceneContext) = ''good''"
    by code_simp
  from dispatched off late show ?thesis by blast
qed

text \<open>
  C3: after the monitor is stopped, the callbacks of operations dispatched earlier check a
  liveness flag before they touch a monitor. The code breaks this for both remote calls:
  starting the session dispatches a detect request; the session is stopped; when the
  response arrives, the callback sets presence to \<open>PRESENT\<close> and composition to
  \<open>TOO CLOSE\<close> in the stopped session, and the caption callback sets the scene context to
  \<open>UPDATED\<close>.
\<close>

theorem stale_response_mutates_stopped_session:
  "list_ex isDetect (snd (startMonitoring renderedWidget liveEnv 1000500)) \<and>
   \<not> isMonitoring (stopMonitoring startedWidget) \<and>
   status (monitors (stopMonitoring startedWidget) presence) = ''Analyzing...'' \<and>
   \<not> isMonitoring (detectThen (stopMonitoring startedWidget) (Some [closeFace])) \<and>
   status (monitors (detectThen (stopMonitoring startedWidget) (Some [closeFace])) presence)
     = ''PRESENT'' \<and>
   status (monitors (detectThen (stopMonitoring startedWidget) (Some [closeFace])) composition)
     = ''TOO CLOSE'' \<and>
   status (monitors (captionThen (stopMonitoring startedWidget) (Some ''A desk'')) sceneContext)
     = ''UPDATED''"
proof -
  have dispatched: "list_ex isDetect (snd (startMonitoring renderedWidget liveEnv 1000500))"
    by (simp add: started_ops)
  have stopped: "\<not> isMonitoring (stopMonitoring startedWidget) \<and>
    status (monitors (stopMonitoring startedWidget) presence) = ''Analyzing...''"
    by code_simp
  have late: "\<not> isMonitoring (detectThen (stopMonitoring startedWidget) (Some [closeFace])) \<and>
    status (monitors (detectThen (stopMonitoring startedWidget) (Some [closeFace])) presence)
      = ''PRESENT'' \<and>
    status (monitors (detectThen (stopMonitoring startedWidget) (Some [closeFace])) composition)
      = ''TOO CLOSE'' \<and>
    status (monitors (captionThen (stopMonitoring startedWidget) (Some ''A desk'')) sceneContext)
      = ''UPDATED''"
    by code_simp
  from dispatched stopped late show ?thesis by blast
qed

text \<open>The landmark callback, by contrast, does check the flag.\<close>

lemma processFrameResults_stopped:
  "\<not> isMonitoring w \<Longrightarrow> processFrameResults w e now mfl = w"
  by (simp add: processFrameResults_def)

section \<open>The throttle\<close>

lemma cycle_remote:
  "list_ex isRemote (snd (runMonitoringCycle w e now)) \<Longrightarrow>
     isMonitoring w \<and> now - lastMoonDreamCall w > 2000"
  by (auto simp add: runMonitoringCycle_def Let_def split: if_splits)

lemma step_quiet:
  "\<not> isCycle ev \<Longrightarrow>
     lastMoonDreamCall (fst (step w ev)) = lastMoonDreamCall w \<and> snd (step w ev) = []"
  by (cases ev) simp_all

lemma batchCount_Cons:
  "batchCount (ops # opss) = (if list_ex isRemote ops then 1 else 0) + batchCount opss"
  by (simp add: batchCount_def)

lemma batchCount_append: "batchCount (a @ b) = batchCount a + batchCount b"
  by (simp add: batchCount_def)

lemma run_Cons_fst: "fst (run w (ev # evs)) = fst (run (fst (step w ev)) evs)"
  by (simp add: case_prod_beta)

lemma run_Cons_snd: "snd (run w (ev # evs)) = snd (step w ev) # snd (run (fst (step w ev)) evs)"
  by (simp add: case_prod_beta)

lemma run_append_fst: "fst (run w (a @ b)) = fst (run (fst (run w a)) b)"
  by (induction a arbitrary: w) (simp_all add: case_prod_beta)

lemma run_append_snd: "snd (run w (a @ b)) = snd (run w a) @ snd (run (fst (run w a)) b)"
  by (induction a arbitrary: w) (simp_all add: case_prod_beta)

lemma run_quiet:
  "\<forall>ev \<in> set evs. \<not> isCycle ev \<Longrightarrow>
     lastMoonDreamCall (fst (run w evs)) = lastMoonDreamCall w \<and> batchCount (snd (run w evs)) = 0"
proof (induction evs arbitrary: w)
  case Nil
  then show ?case by (simp add: batchCount_def)
next
  case (Cons ev evs)
  from Cons.prems have q: "\<not> isCycle ev" by simp
  note l = step_quiet [OF q, of w]
  from Cons.IH [of "fst (step w ev)"] Cons.prems
  have "lastMoonDreamCall (fst (run (fst (step w ev)) evs)) = lastMoonDreamCall (fst (step w ev))
        \<and> batchCount (snd (run (fst (step w ev)) evs)) = 0"
    by simp
  with l show ?case
    by (simp only: run_Cons_fst run_Cons_snd batchCount_Cons) simp
qed

lemma segment:
  assumes "\<forall>ev \<in> set q. \<not> isCycle ev"
  shows "batchCount (snd (run w (Tick e now # q))) \<le> 1 \<and>
         (batchCount (snd (run w (Tick e now # q))) = 1 \<longrightarrow>
            now - lastMoonDreamCall w > 2000 \<and>
            lastMoonDreamCall (fst (run w (Tick e now # q))) = now)"
proof -
  let ?w1 = "fst (runMonitoringCycle w e now)"
  from run_quiet [OF assms, of ?w1]
  have q: "lastMoonDreamCall (fst (run ?w1 q)) = lastMoonDreamCall ?w1"
          "batchCount (snd (run ?w1 q)) = 0"
    by simp_all
  note l = cycle_last [of w e now]
  note r = cycle_remote [of w e now]
  show ?thesis using q l r
    by (simp only: run_Cons_fst run_Cons_snd batchCount_Cons step.simps) auto
qed

lemma two_segments:
  assumes q0: "\<forall>ev \<in> set q0. \<not> isCycle ev" and q1: "\<forall>ev \<in> set q1. \<not> isCycle ev"
    and d: "t1 - t0 \<le> 2000"
  shows "batchCount (snd (run w (Tick e0 t0 # q0))) +
         batchCount (snd (run (fst (run w (Tick e0 t0 # q0))) (Tick e1 t1 # q1))) \<le> 1"
proof -
  let ?w1 = "fst (run w (Tick e0 t0 # q0))"
  note a = segment [OF q0, of w e0 t0]
  note b = segment [OF q1, of ?w1 e1 t1]
  from a b d show ?thesis by auto
qed

lemma five_ticks:
  assumes q: "\<forall>ev \<in> set (q0 @ q1 @ q2 @ q3). \<not> isCycle ev"
  shows "batchCount (snd (run w ((Tick e0 t # q0) @ (Tick e1 (t + 1500) # q1) @
            (Tick e2 (t + 3000) # q2) @ (Tick e3 (t + 4500) # q3) @ [Tick e4 (t + 6000)]))) \<le> 3"
proof -
  from q have q0: "\<forall>ev \<in> set q0. \<not> isCycle ev" and q1: "\<forall>ev \<in> set q1. \<not> isCycle ev"
    and q2: "\<forall>ev \<in> set q2. \<not> isCycle ev" and q3: "\<forall>ev \<in> set q3. \<not> isCycle ev"
    by auto
  have q4: "\<forall>ev \<in> set ([]::event list). \<not> isCycle ev" by simp
  define w1 where "w1 = fst (run w (Tick e0 t # q0))"
  define w2 where "w2 = fst (run w1 (Tick e1 (t + 1500) # q1))"
  define w3 where "w3 = fst (run w2 (Tick e2 (t + 3000) # q2))"
  define w4 where "w4 = fst (run w3 (Tick e3 (t + 4500) # q3))"
  have a: "batchCount (snd (run w (Tick e0 t # q0))) +
           batchCount (snd (run w1 (Tick e1 (t + 1500) # q1))) \<le> 1"
    unfolding w1_def by (rule two_segments [OF q0 q1]) simp
  have b: "batchCount (snd (run w2 (Tick e2 (t + 3000) # q2))) +
           batchCount (snd (run w3 (Tick e3 (t + 4500) # q3))) \<le> 1"
    unfolding w3_def by (rule two_segments [OF q2 q3]) simp
  have c: "batchCount (snd (run w4 [Tick e4 (t + 6000)])) \<le> 1"
    using segment [OF q4, of w4 e4 "t + 6000"] by simp
  have "batchCount (snd (run w ((Tick e0 t # q0) @ (Tick e1 (t + 1500) # q1) @
            (Tick e2 (t + 3000) # q2) @ (Tick e3 (t + 4500) # q3) @ [Tick e4 (t + 6000)]))) =
        batchCount (snd (run w (Tick e0 t # q0))) +
        batchCount (snd (run w1 (Tick e1 (t + 1500) # q1))) +
        batchCount (snd (run w2 (Tick e2 (t + 3000) # q2))) +
        batchCount (snd (run w3 (Tick e3 (t + 4500) # q3))) +
        batchCount (snd (run w4 [Tick e4 (t + 6000)]))"
    by (simp only: run_append_snd run_append_fst batchCount_append w1_def w2_def w3_def w4_def)
  with a b c show ?thesis by linarith
qed

lemma runMoonDreamAnalysis_detects:
  "length (filter isDetect (runMoonDreamAnalysis w e)) \<le> 1 \<and>
   length (filter isCaption (runMoonDreamAnalysis w e)) \<le> 1"
  by (simp add: runMoonDreamAnalysis_def Let_def split: option.splits)

lemma cycle_requests:
  "length (filter isDetect (snd (runMonitoringCycle w e now))) \<le>
     (if list_ex isRemote (snd (runMonitoringCycle w e now)) then 1 else 0) \<and>
   length (filter isCaption (snd (runMonitoringCycle w e now))) \<le>
     (if list_ex isRemote (snd (runMonitoringCycle w e now)) then 1 else 0)"
  by (simp add: runMonitoringCycle_def runMoonDreamAnalysis_def Let_def split: option.splits)

lemma startMonitoring_ops:
  "\<exists>w2. snd (startMonitoring w e now) = [] \<or>
        snd (startMonitoring w e now) = snd (runMonitoringCycle w2 e now)"
  by (auto simp add: startMonitoring_def Let_def case_prod_beta)

lemma toggleMonitoring_requests:
  "length (filter isDetect (snd (toggleMonitoring w e now))) \<le>
     (if list_ex isRemote (snd (toggleMonitoring w e now)) then 1 else 0) \<and>
   length (filter isCaption (snd (toggleMonitoring w e now))) \<le>
     (if list_ex isRemote (snd (toggleMonitoring w e now)) then 1 else 0)"
proof (cases "isMonitoring w")
  case True
  then show ?thesis by (simp add: toggleMonitoring_def)
next
  case False
  from startMonitoring_ops [of w e now] obtain w2 where
    "snd (startMonitoring w e now) = [] \<or>
     snd (startMonitoring w e now) = snd (runMonitoringCycle w2 e now)" ..
  then show ?thesis
  proof
    assume "snd (startMonitoring w e now) = []"
    with False show ?thesis by (simp add: toggleMonitoring_def)
  next
    assume "snd (startMonitoring w e now) = snd (runMonitoringCycle w2 e now)"
    with False cycle_requests [of w2 e now] show ?thesis by (simp add: toggleMonitoring_def)
  qed
qed

lemma step_requests:
  "length (filter isDetect (snd (step w ev))) \<le>
     (if list_ex isRemote (snd (step w ev)) then 1 else 0) \<and>
   length (filter isCaption (snd (step w ev))) \<le>
     (if list_ex isRemote (snd (step w ev)) then 1 else 0)"
proof (cases ev)
  case (ToggleMonitoring e now)
  then show ?thesis using toggleMonitoring_requests [of w e now] by simp
next
  case (Tick e now)
  then show ?thesis using cycle_requests [of w e now] by simp
qed simp_all

lemma run_requests:
  "length (filter isDetect (concat (snd (run w evs)))) \<le> batchCount (snd (run w evs)) \<and>
   length (filter isCaption (concat (snd (run w evs)))) \<le> batchCount (snd (run w evs))"
proof (induction evs arbitrary: w)
  case Nil
  then show ?case by (simp add: batchCount_def)
next
  case (Cons ev evs)
  from Cons.IH [of "fst (step w ev)"] step_requests [of w ev]
  show ?case
    by (simp only: run_Cons_snd batchCount_Cons concat.simps filter_append length_append)
       (auto split: if_splits)
qed

text \<open>
  C4: a cycle issues a batched remote call only if more than 2000 ms have passed since the
  stored timestamp, and it sets the timestamp to the current time when it issues the call;
  the completion callbacks leave the timestamp alone. Hence five consecutive ticks 1500 ms
  apart, with any events other than cycles in between, issue at most
  \<open>ceil (5 * 1500 / 2000)\<close> batches, and at most that many detect and caption requests.
\<close>

theorem throttle_window:
  "(list_ex isRemote (snd (runMonitoringCycle w e now)) \<longrightarrow>
      now - lastMoonDreamCall w > 2000 \<and> lastMoonDreamCall (fst (runMonitoringCycle w e now)) = now) \<and>
   lastMoonDreamCall (detectThen w objs) = lastMoonDreamCall w \<and>
   lastMoonDreamCall (detectCatch w) = lastMoonDreamCall w \<and>
   lastMoonDreamCall (captionThen w cap) = lastMoonDreamCall w \<and>
   lastMoonDreamCall (captionCatch w) = lastMoonDreamCall w \<and>
   ((\<forall>ev \<in> set (q0 @ q1 @ q2 @ q3). \<not> isCycle ev) \<longrightarrow>
      (let opss = snd (run w ((Tick e0 t # q0) @ (Tick e1 (t + 1500) # q1) @
                    (Tick e2 (t + 3000) # q2) @ (Tick e3 (t + 4500) # q3) @ [Tick e4 (t + 6000)]))
       in batchCount opss \<le> nat \<lceil>5 * 1500 / 2000 :: real\<rceil> \<and>
          length (filter isDetect (concat opss)) \<le> nat \<lceil>5 * 1500 / 2000 :: real\<rceil> \<and>
          length (filter isCaption (concat opss)) \<le> nat \<lceil>5 * 1500 / 2000 :: real\<rceil>))"
proof -
  have c: "nat \<lceil>5 * 1500 / 2000 :: real\<rceil> = 4" by simp
  have one: "list_ex isRemote (snd (runMonitoringCycle w e now)) \<longrightarrow>
      now - lastMoonDreamCall w > 2000 \<and> lastMoonDreamCall (fst (runMonitoringCycle w e now)) = now"
    using cycle_remote [of w e now] cycle_last [of w e now] by simp
  have five: "(\<forall>ev \<in> set (q0 @ q1 @ q2 @ q3). \<not> isCycle ev) \<longrightarrow>
      (let opss = snd (run w ((Tick e0 t # q0) @ (Tick e1 (t + 1500) # q1) @
                    (Tick e2 (t + 3000) # q2) @ (Tick e3 (t + 4500) # q3) @ [Tick e4 (t + 6000)]))
       in batchCount opss \<le> 4 \<and>
          length (filter isDetect (concat opss)) \<le> 4 \<and>
          length (filter isCaption (concat opss)) \<le> 4)"
  proof
    assume q: "\<forall>ev \<in> set (q0 @ q1 @ q2 @ q3). \<not> isCycle ev"
    let ?tr = "(Tick e0 t # q0) @ (Tick e1 (t + 1500) # q1) @
                    (Tick e2 (t + 3000) # q2) @ (Tick e3 (t + 4500) # q3) @ [Tick e4 (t + 6000)]"
    from five_ticks [OF q, of w e0 t e1 e2 e3 e4] have "batchCount (snd (run w ?tr)) \<le> 3" .
    with run_requests [of w ?tr]
    show "let opss = snd (run w ?tr)
       in batchCount opss \<le> 4 \<and>
          length (filter isDetect (concat opss)) \<le> 4 \<and>
          length (filter isCaption (concat opss)) \<le> 4"
      unfolding Let_def by linarith
  qed
  show ?thesis
    unfolding c using one five by simp
qed

text \<open>C4 at the started session, with a toggle and a detect response between the ticks.\<close>

theorem throttle_window_witness:
  "list_ex isRemote (snd (runMonitoringCycle startedWidget liveEnv 1003500)) \<and>
   1003500 - lastMoonDreamCall startedWidget > 2000 \<and>
   lastMoonDreamCall (fst (runMonitoringCycle startedWidget liveEnv 1003500)) = 1003500 \<and>
   batchCount (snd (run startedWidget
      ((Tick liveEnv 1003500 # [ToggleMonitor focus]) @ (Tick liveEnv (1003500 + 1500) # []) @
       (Tick liveEnv (1003500 + 3000) # [DetectResolved (Some [closeFace])]) @
       (Tick liveEnv (1003500 + 4500) # []) @ [Tick liveEnv (1003500 + 6000)]))) \<le> 4"
proof -
  have r: "list_ex isRemote (snd (runMonitoringCycle startedWidget liveEnv 1003500))"
    by (simp add: runMonitoringCycle_def startedWidget_code analyzeLighting_live
        runMoonDreamAnalysis_def liveEnv_reads Let_def updateMonitorStatus_def)
  have q: "\<forall>ev \<in> set ([ToggleMonitor focus] @ [] @ [DetectResolved (Some [closeFace])] @ []). \<not> isCycle ev"
    by simp
  from throttle_window [of startedWidget liveEnv 1003500 objs cap "[ToggleMonitor focus]" "[]"
      "[DetectResolved (Some [closeFace])]" "[]" liveEnv 1003500 liveEnv liveEnv liveEnv liveEnv] r q
  show ?thesis unfolding Let_def by simp
qed

section \<open>The landmark smoother\<close>

lemma definedAt_Nil [simp]: "definedAt [] i = []"
  by (simp add: definedAt_def map_filter_simps)

lemma definedAt_Cons:
  "definedAt (frame # rest) i =
     (case lm_at frame i of None \<Rightarrow> definedAt rest i | Some p \<Rightarrow> p # definedAt rest i)"
  by (simp add: definedAt_def map_filter_simps split: option.splits)

lemma depths_Nil [simp]: "depths [] = []"
  by (simp add: depths_def map_filter_simps)

lemma depths_Cons:
  "depths (p # ps) = (case pz p of None \<Rightarrow> depths ps | Some v \<Rightarrow> v # depths ps)"
  by (simp add: depths_def map_filter_simps split: option.splits)

lemma sumLoop_sums:
  "sumLoop history i (sumX, sumY, sumZ, count) =
     (sumX + sum_list (map px (definedAt history i)),
      sumY + sum_list (map py (definedAt history i)),
      sumZ + sum_list (depths (definedAt history i)),
      count + length (definedAt history i))"
proof (induction history arbitrary: sumX sumY sumZ count)
  case Nil
  then show ?case by simp
next
  case (Cons frame rest)
  show ?case
  proof (cases "lm_at frame i")
    case None
    then show ?thesis by (simp add: Cons.IH definedAt_Cons)
  next
    case (Some p)
    then show ?thesis
      by (cases "pz p") (simp_all add: Cons.IH definedAt_Cons depths_Cons)
  qed
qed

lemma smoothedAt_sums:
  "smoothedAt history newLandmarks i =
     (if definedAt history i = [] then lm_at newLandmarks i
      else Some \<lparr>px = mean (map px (definedAt history i)),
                 py = mean (map py (definedAt history i)),
                 pz = Some (sum_list (depths (definedAt history i))
                            / real (length (definedAt history i)))\<rparr>)"
  by (simp add: smoothedAt_def sumLoop_sums mean_def)

lemma depths_all:
  assumes "\<forall>p \<in> set ps. pz p \<noteq> None"
  shows "depths ps = map (\<lambda>p. the (pz p)) ps"
  using assms by (induction ps) (auto simp add: depths_Cons)

lemma meanPoint_all_depths:
  assumes "\<forall>p \<in> set ps. pz p \<noteq> None" and "ps \<noteq> []"
  shows "meanPoint ps =
           \<lparr>px = mean (map px ps), py = mean (map py ps),
            pz = Some (sum_list (depths ps) / real (length ps))\<rparr>"
proof -
  from depths_all [OF assms(1)] have d: "depths ps = map (\<lambda>p. the (pz p)) ps" .
  then have l: "length (depths ps) = length ps" by simp
  from d assms(2) have n: "depths ps \<noteq> []" by simp
  show ?thesis by (simp add: meanPoint_def n mean_def l)
qed

lemma pushed_history:
  assumes "length h \<le> 5"
  shows "(if length (h @ [n]) > 5 then tl (h @ [n]) else h @ [n]) =
           drop (length (h @ [n]) - 5) (h @ [n])"
  using assms by (cases h) (auto simp add: drop_Cons')

text \<open>
  C5 (as amended): after a frame is pushed, the history holds the last five frames (between
  one and five of them, the newest last). For every index \<open>i\<close> of the new frame, the
  smoothed point has as \<open>x\<close> and \<open>y\<close> the arithmetic means of those coordinates over the
  frames of the history that define index \<open>i\<close>, and as \<open>z\<close> the sum of the depths present
  among those landmarks divided by the number of those frames; when every such landmark
  carries a depth, the point is their component-wise arithmetic mean. When no frame defines
  index \<open>i\<close>, the output is the raw entry of the newest frame.
\<close>

theorem smoothLandmarks_mean:
  assumes "length (landmarkHistory w) \<le> 5"
  shows "landmarkHistory (fst (smoothLandmarks w newLandmarks)) =
           drop (length (landmarkHistory w @ [newLandmarks]) - 5)
                (landmarkHistory w @ [newLandmarks]) \<and>
         1 \<le> length (landmarkHistory (fst (smoothLandmarks w newLandmarks))) \<and>
         length (landmarkHistory (fst (smoothLandmarks w newLandmarks))) \<le> 5 \<and>
         last (landmarkHistory (fst (smoothLandmarks w newLandmarks))) = newLandmarks \<and>
         length (snd (smoothLandmarks w newLandmarks)) = length newLandmarks \<and>
         (\<forall>i < length newLandmarks.
            lm_at (snd (smoothLandmarks w newLandmarks)) i =
              (if definedAt (landmarkHistory (fst (smoothLandmarks w newLandmarks))) i = []
               then lm_at newLandmarks i
               else Some
                 \<lparr>px = mean (map px
                         (definedAt (landmarkHistory (fst (smoothLandmarks w newLandmarks))) i)),
                  py = mean (map py
                         (definedAt (landmarkHistory (fst (smoothLandmarks w newLandmarks))) i)),
                  pz = Some (sum_list (depths
                         (definedAt (landmarkHistory (fst (smoothLandmarks w newLandmarks))) i))
                       / real (length
                         (definedAt (landmarkHistory (fst (smoothLandmarks w newLandmarks))) i)))\<rparr>) \<and>
            (definedAt (landmarkHistory (fst (smoothLandmarks w newLandmarks))) i \<noteq> [] \<and>
             (\<forall>p \<in> set (definedAt (landmarkHistory (fst (smoothLandmarks w newLandmarks))) i).
                pz p \<noteq> None) \<longrightarrow>
               lm_at (snd (smoothLandmarks w newLandmarks)) i =
                 Some (meanPoint
                   (definedAt (landmarkHistory (fst (smoothLandmarks w newLandmarks))) i))))"
proof -
  let ?h = "drop (length (landmarkHistory w @ [newLandmarks]) - 5)
                 (landmarkHistory w @ [newLandmarks])"
  have h: "landmarkHistory (fst (smoothLandmarks w newLandmarks)) = ?h"
    using pushed_history [OF assms, of newLandmarks]
    by (simp add: smoothLandmarks_def Let_def)
  have len: "1 \<le> length ?h \<and> length ?h \<le> 5" using assms by auto
  have lst: "last ?h = newLandmarks" using assms by simp
  have sm: "snd (smoothLandmarks w newLandmarks) =
              map (smoothedAt ?h newLandmarks) [0..<length newLandmarks]"
    using pushed_history [OF assms, of newLandmarks]
    by (simp add: smoothLandmarks_def Let_def)
  have n: "length (snd (smoothLandmarks w newLandmarks)) = length newLandmarks"
    by (simp add: sm)
  have at: "\<forall>i < length newLandmarks.
              lm_at (snd (smoothLandmarks w newLandmarks)) i =
                (if definedAt ?h i = [] then lm_at newLandmarks i
                 else Some \<lparr>px = mean (map px (definedAt ?h i)),
                            py = mean (map py (definedAt ?h i)),
                            pz = Some (sum_list (depths (definedAt ?h i))
                                       / real (length (definedAt ?h i)))\<rparr>) \<and>
              (definedAt ?h i \<noteq> [] \<and> (\<forall>p \<in> set (definedAt ?h i). pz p \<noteq> None) \<longrightarrow>
                 lm_at (snd (smoothLandmarks w newLandmarks)) i = Some (meanPoint (definedAt ?h i)))"
  proof (intro allI impI)
    fix i assume i: "i < length newLandmarks"
    have a: "lm_at (snd (smoothLandmarks w newLandmarks)) i = smoothedAt ?h newLandmarks i"
      using i by (simp add: sm lm_at_def)
    show "lm_at (snd (smoothLandmarks w newLandmarks)) i =
                (if definedAt ?h i = [] then lm_at newLandmarks i
                 else Some \<lparr>px = mean (map px (definedAt ?h i)),
                            py = mean (map py (definedAt ?h i)),
                            pz = Some (sum_list (depths (definedAt ?h i))
                                       / real (length (definedAt ?h i)))\<rparr>) \<and>
              (definedAt ?h i \<noteq> [] \<and> (\<forall>p \<in> set (definedAt ?h i). pz p \<noteq> None) \<longrightarrow>
                 lm_at (snd (smoothLandmarks w newLandmarks)) i = Some (meanPoint (definedAt ?h i)))"
      unfolding a smoothedAt_sums
      using meanPoint_all_depths [of "definedAt ?h i"] by auto
  qed
  show ?thesis
    unfolding h using len lst n at by blast
qed


lemma warm_history:
  "landmarkHistory (fst (smoothLandmarks warmWidget [Some nearPoint, None, None])) =
     [[Some farPoint, Some farPoint], [Some flatPoint], [Some nearPoint, None, None]]"
  by code_simp

lemma warm_defined:
  "definedAt [[Some farPoint, Some farPoint], [Some flatPoint], [Some nearPoint, None, None]] 0
     = [farPoint, flatPoint, nearPoint]"
  "definedAt [[Some farPoint, Some farPoint], [Some flatPoint], [Some nearPoint, None, None]] 1
     = [farPoint]"
  "definedAt [[Some farPoint, Some farPoint], [Some flatPoint], [Some nearPoint, None, None]] 2
     = []"
  by code_simp+

text \<open>The amended C5 on a history of three frames: index 0 is defined by three frames
  (one landmark without depth), index 1 by one frame, index 2 by none.\<close>

theorem smoothLandmarks_mean_witness:
  "length (landmarkHistory warmWidget) \<le> 5 \<and>
   length (landmarkHistory (fst (smoothLandmarks warmWidget [Some nearPoint, None, None]))) = 3 \<and>
   lm_at (snd (smoothLandmarks warmWidget [Some nearPoint, None, None])) 0
     = Some \<lparr>px = 0.5, py = 0.5, pz = Some 2\<rparr> \<and>
   lm_at (snd (smoothLandmarks warmWidget [Some nearPoint, None, None])) 1
     = Some (meanPoint [farPoint]) \<and>
   meanPoint [farPoint] = \<lparr>px = 0.25, py = 0.5, pz = Some 4\<rparr> \<and>
   lm_at (snd (smoothLandmarks warmWidget [Some nearPoint, None, None])) 2 = None"
proof -
  let ?new = "[Some nearPoint, None, None]"
  let ?h = "landmarkHistory (fst (smoothLandmarks warmWidget ?new))"
  have l: "length (landmarkHistory warmWidget) \<le> 5" by code_simp
  note h = warm_history
  have s0: "mean (map px [farPoint, flatPoint, nearPoint]) = 0.5"
           "mean (map py [farPoint, flatPoint, nearPoint]) = 0.5"
           "sum_list (depths [farPoint, flatPoint, nearPoint]) / real (length [farPoint, flatPoint, nearPoint]) = 2"
    by code_simp+
  have m1: "meanPoint [farPoint] = \<lparr>px = 0.25, py = 0.5, pz = Some 4\<rparr>" by code_simp
  have z1: "\<forall>p \<in> set [farPoint]. pz p \<noteq> None" by (simp add: farPoint_def)
  have n2: "lm_at ?new 2 = None" by code_simp
  from smoothLandmarks_mean [OF l, of ?new]
  have a: "\<forall>i < length ?new.
            lm_at (snd (smoothLandmarks warmWidget ?new)) i =
              (if definedAt ?h i = [] then lm_at ?new i
               else Some \<lparr>px = mean (map px (definedAt ?h i)),
                          py = mean (map py (definedAt ?h i)),
                          pz = Some (sum_list (depths (definedAt ?h i))
                                     / real (length (definedAt ?h i)))\<rparr>) \<and>
            (definedAt ?h i \<noteq> [] \<and> (\<forall>p \<in> set (definedAt ?h i). pz p \<noteq> None) \<longrightarrow>
               lm_at (snd (smoothLandmarks warmWidget ?new)) i = Some (meanPoint (definedAt ?h i)))"
    by blast
  have i0: "lm_at (snd (smoothLandmarks warmWidget ?new)) 0 = Some \<lparr>px = 0.5, py = 0.5, pz = Some 2\<rparr>"
    using a [rule_format, of 0] unfolding h warm_defined s0 by simp
  have len1: "1 < length ?new" by simp
  note c1 = a [rule_format, OF len1, THEN conjunct2, unfolded h warm_defined]
  have i1: "lm_at (snd (smoothLandmarks warmWidget ?new)) 1 = Some (meanPoint [farPoint])"
    using c1 z1 by simp
  have i2: "lm_at (snd (smoothLandmarks warmWidget ?new)) 2 = None"
    using a [rule_format, of 2] n2 unfolding h warm_defined by simp
  show ?thesis using l i0 i1 m1 i2 by (simp add: h)
qed

text \<open>
  C5 as stated fails where a landmark lacks its depth: at index 0 the three landmarks have
  depths 4, none and 2, whose arithmetic mean is 3, and the smoother returns depth 2.
\<close>

theorem smoothLandmarks_depth_counterexample:
  "definedAt (landmarkHistory (fst (smoothLandmarks warmWidget [Some nearPoint, None, None]))) 0
     = [farPoint, flatPoint, nearPoint] \<and>
   meanPoint [farPoint, flatPoint, nearPoint] = \<lparr>px = 0.5, py = 0.5, pz = Some 3\<rparr> \<and>
   lm_at (snd (smoothLandmarks warmWidget [Some nearPoint, None, None])) 0
     = Some \<lparr>px = 0.5, py = 0.5, pz = Some 2\<rparr> \<and>
   lm_at (snd (smoothLandmarks warmWidget [Some nearPoint, None, None])) 0
     \<noteq> Some (meanPoint [farPoint, flatPoint, nearPoint])"
proof -
  have d: "definedAt (landmarkHistory (fst (smoothLandmarks warmWidget [Some nearPoint, None, None]))) 0
     = [farPoint, flatPoint, nearPoint]"
    unfolding warm_history by (rule warm_defined)
  have m: "meanPoint [farPoint, flatPoint, nearPoint] = \<lparr>px = 0.5, py = 0.5, pz = Some 3\<rparr>"
    by code_simp
  have o: "lm_at (snd (smoothLandmarks warmWidget [Some nearPoint, None, None])) 0
     = Some \<lparr>px = 0.5, py = 0.5, pz = Some 2\<rparr>"
    by code_simp
  from d m o show ?thesis by simp
qed

section \<open>Composition\<close>








section \<open>Talking\<close>

text \<open>
  C7: when both lip landmarks are present, the raw measurement (lip distance above 0.018)
  differs from the stored flag and at most 150 ms have passed since the stored change, the
  stored talking state stays as it was, while the status shown (the monitor having its
  card) follows the raw measurement: \<open>TALKING\<close>/\<open>good\<close> if it is true, \<open>SILENT\<close>/\<open>warning\<close>
  otherwise.
\<close>

theorem talking_debounce:
  assumes "lm_at landmarks UPPER_LIP = Some upperLip" and "lm_at landmarks LOWER_LIP = Some lowerLip"
    and "raw = (\<bar>py upperLip - py lowerLip\<bar> > 0.018)"
    and "raw \<noteq> isTalking (talkingState w)"
    and "now - lastChange (talkingState w) \<le> 150"
    and "element (monitors w talking)"
  shows "talkingState (analyzeTalking w landmarks now) = talkingState w \<and>
         status (monitors (analyzeTalking w landmarks now) talking) =
           (if raw then ''TALKING'' else ''SILENT'') \<and>
         statusClass (monitors (analyzeTalking w landmarks now) talking) =
           (if raw then ''good'' else ''warning'')"
  using assms by (simp add: analyzeTalking_def Let_def monitors_updateMonitorStatus)

text \<open>C7 on a fresh widget, 100 ms after construction, with the mouth open by 0.03.\<close>

theorem talking_debounce_witness:
  "lm_at (lipsFrame 0.03) UPPER_LIP = Some \<lparr>px = 0.5, py = 0.5, pz = Some 0\<rparr> \<and>
   lm_at (lipsFrame 0.03) LOWER_LIP = Some \<lparr>px = 0.5, py = 0.53, pz = Some 0\<rparr> \<and>
   \<not> isTalking (talkingState renderedWidget) \<and>
   1000100 - lastChange (talkingState renderedWidget) \<le> 150 \<and>
   element (monitors renderedWidget talking) \<and>
   \<not> isTalking (talkingState (analyzeTalking renderedWidget (lipsFrame 0.03) 1000100)) \<and>
   status (monitors (analyzeTalking renderedWidget (lipsFrame 0.03) 1000100) talking) = ''TALKING'' \<and>
   statusClass (monitors (analyzeTalking renderedWidget (lipsFrame 0.03) 1000100) talking) = ''good''"
proof -
  have u: "lm_at (lipsFrame 0.03) UPPER_LIP = Some \<lparr>px = 0.5, py = 0.5, pz = Some 0\<rparr>"
    by code_simp
  have l: "lm_at (lipsFrame 0.03) LOWER_LIP = Some \<lparr>px = 0.5, py = 0.53, pz = Some 0\<rparr>"
    by code_simp
  have r: "True = (\<bar>py \<lparr>px = 0.5, py = 0.5, pz = Some 0\<rparr> - py \<lparr>px = 0.5, py = 0.53, pz = Some (0::real)\<rparr>\<bar> > 0.018)"
    by simp
  have t: "True \<noteq> isTalking (talkingState renderedWidget)" by code_simp
  have d: "1000100 - lastChange (talkingState renderedWidget) \<le> 150" by code_simp
  have el: "element (monitors renderedWidget talking)" by code_simp
  from t have t': "\<not> isTalking (talkingState renderedWidget)" by simp
  from talking_debounce [OF u l r t d el]
  have s: "talkingState (analyzeTalking renderedWidget (lipsFrame 0.03) 1000100) =
             talkingState renderedWidget \<and>
           status (monitors (analyzeTalking renderedWidget (lipsFrame 0.03) 1000100) talking) = ''TALKING'' \<and>
           statusClass (monitors (analyzeTalking renderedWidget (lipsFrame 0.03) 1000100) talking) = ''good''"
    by simp
  with t' have n: "\<not> isTalking (talkingState (analyzeTalking renderedWidget (lipsFrame 0.03) 1000100))"
    by simp
  from u l t' d el n s show ?thesis by blast
qed

text \<open>Once more than 150 ms have passed, the stored flag does follow the measurement.\<close>

lemma talking_flips_after_window:
  "talkingState (analyzeTalking renderedWidget (lipsFrame 0.03) 1000151) =
     \<lparr>isTalking = True, lastChange = 1000151\<rparr>"
  by code_simp

section \<open>Lighting\<close>

lemma analyzeLighting_classified:
  assumes "lightingSource e = Some (sw, sh, src)" and "sh > 0"
    and "element (monitors w lighting)"
    and "L = avgBrightness (getImageData src sw sh)"
  shows "status (monitors (analyzeLighting w e) lighting) =
           (if L < 50 then ''DARK'' else if L < 90 then ''DIM''
            else if L > 220 then ''OVEREXPOSED'' else if L > 180 then ''BRIGHT'' else ''GOOD'') \<and>
         statusClass (monitors (analyzeLighting w e) lighting) =
           (if L < 50 then ''bad'' else if L < 90 then ''warning''
            else if L > 220 then ''bad'' else if L > 180 then ''warning'' else ''good'')"
  using assms by (simp add: analyzeLighting_def Let_def monitors_updateMonitorStatus)

text \<open>
  C8 (as amended): when a source with a positive height is available and the lighting
  monitor has its card, let \<open>L\<close> be the average over all pixels of
  \<open>0.299 R + 0.587 G + 0.114 B\<close> as evaluated in double-precision arithmetic (the weights,
  each product, each sum and the final division rounded to the nearest double). The status
  is \<open>DARK\<close>/\<open>bad\<close> for \<open>L < 50\<close>, \<open>DIM\<close>/\<open>warning\<close> for \<open>50 \<le> L < 90\<close>, \<open>GOOD\<close>/\<open>good\<close> for
  \<open>90 \<le> L \<le> 180\<close>, \<open>BRIGHT\<close>/\<open>warning\<close> for \<open>180 < L \<le> 220\<close> and \<open>OVEREXPOSED\<close>/\<open>bad\<close>
  for \<open>L > 220\<close>; the values 49, 50, 90, 180, 181, 220 and 221 of \<open>L\<close> fall as listed.
  Without rounding the same average is the sum of \<open>0.299 R + 0.587 G + 0.114 B\<close> over the
  pixels divided by their number.
\<close>

theorem lighting_classification:
  assumes "lightingSource e = Some (sw, sh, src)" and "sh > 0"
    and "element (monitors w lighting)"
    and "L = spec_luminance toDouble src sw sh"
  shows "(L < 50 \<longrightarrow> status (monitors (analyzeLighting w e) lighting) = ''DARK'' \<and>
                   statusClass (monitors (analyzeLighting w e) lighting) = ''bad'') \<and>
         (50 \<le> L \<and> L < 90 \<longrightarrow> status (monitors (analyzeLighting w e) lighting) = ''DIM'' \<and>
                   statusClass (monitors (analyzeLighting w e) lighting) = ''warning'') \<and>
         (90 \<le> L \<and> L \<le> 180 \<longrightarrow> status (monitors (analyzeLighting w e) lighting) = ''GOOD'' \<and>
                   statusClass (monitors (analyzeLighting w e) lighting) = ''good'') \<and>
         (180 < L \<and> L \<le> 220 \<longrightarrow> status (monitors (analyzeLighting w e) lighting) = ''BRIGHT'' \<and>
                   statusClass (monitors (analyzeLighting w e) lighting) = ''warning'') \<and>
         (220 < L \<longrightarrow> status (monitors (analyzeLighting w e) lighting) = ''OVEREXPOSED'' \<and>
                   statusClass (monitors (analyzeLighting w e) lighting) = ''bad'') \<and>
         (L = 49 \<longrightarrow> status (monitors (analyzeLighting w e) lighting) = ''DARK'') \<and>
         (L = 50 \<longrightarrow> status (monitors (analyzeLighting w e) lighting) = ''DIM'') \<and>
         (L = 90 \<longrightarrow> status (monitors (analyzeLighting w e) lighting) = ''GOOD'') \<and>
         (L = 180 \<longrightarrow> status (monitors (analyzeLighting w e) lighting) = ''GOOD'') \<and>
         (L = 181 \<longrightarrow> status (monitors (analyzeLighting w e) lighting) = ''BRIGHT'') \<and>
         (L = 220 \<longrightarrow> status (monitors (analyzeLighting w e) lighting) = ''BRIGHT'') \<and>
         (L = 221 \<longrightarrow> status (monitors (analyzeLighting w e) lighting) = ''OVEREXPOSED'') \<and>
         spec_luminance id src sw sh =
           sum (\<lambda>i. 0.299 * real (unat (rgba src (4 * i)))
                      + 0.587 * real (unat (rgba src (4 * i + 1)))
                      + 0.114 * real (unat (rgba src (4 * i + 2)))) {..<sw * sh}
             / real (sw * sh)"
proof -
  from assms(4) have L: "L = avgBrightness (getImageData src sw sh)"
    by (simp add: avgBrightness_def avgBrightness_spec)
  from analyzeLighting_classified [OF assms(1-3) L] spec_luminance_exact [of src sw sh]
  show ?thesis by simp
qed

text \<open>The amended C8 on a one-pixel frame of grey level 49.\<close>

theorem lighting_classification_witness:
  "lightingSource (bytesEnv 1 1 [49, 49, 49, 255]) = Some (1, 1, bytesSource 1 1 [49, 49, 49, 255]) \<and>
   element (monitors renderedWidget lighting) \<and>
   spec_luminance toDouble (bytesSource 1 1 [49, 49, 49, 255]) 1 1 = 49 \<and>
   status (monitors (analyzeLighting renderedWidget (bytesEnv 1 1 [49, 49, 49, 255])) lighting) = ''DARK'' \<and>
   statusClass (monitors (analyzeLighting renderedWidget (bytesEnv 1 1 [49, 49, 49, 255])) lighting) = ''bad''"
proof -
  have s: "lightingSource (bytesEnv 1 1 [49, 49, 49, 255]) = Some (1, 1, bytesSource 1 1 [49, 49, 49, 255])"
    by (rule bytes_lightingSource) simp
  have h: "(1::nat) > 0" by simp
  have el: "element (monitors renderedWidget lighting)" by code_simp
  have b: "spec_luminance toDouble (bytesSource 1 1 [49, 49, 49, 255]) 1 1 = 49"
    by (simp only: avgBrightness_spec [symmetric] one_pixel_data avgBrightness_def [symmetric] lum_49)
  from lighting_classification [OF s h el b [symmetric]]
  have r: "status (monitors (analyzeLighting renderedWidget (bytesEnv 1 1 [49, 49, 49, 255])) lighting) = ''DARK'' \<and>
   statusClass (monitors (analyzeLighting renderedWidget (bytesEnv 1 1 [49, 49, 49, 255])) lighting) = ''bad''"
    by simp
  from s el b r show ?thesis by blast
qed

lemma analyzeLighting_one_pixel:
  assumes "element (monitors w lighting)" and "L = avgBrightness [r, g, b, a]"
  shows "status (monitors (analyzeLighting w (bytesEnv 1 1 [r, g, b, a])) lighting) =
           (if L < 50 then ''DARK'' else if L < 90 then ''DIM''
            else if L > 220 then ''OVEREXPOSED'' else if L > 180 then ''BRIGHT'' else ''GOOD'')"
proof -
  have s: "lightingSource (bytesEnv 1 1 [r, g, b, a]) = Some (1, 1, bytesSource 1 1 [r, g, b, a])"
    by (rule bytes_lightingSource) simp
  have h: "(1::nat) > 0" by simp
  from assms(2) have L: "L = avgBrightness (getImageData (bytesSource 1 1 [r, g, b, a]) 1 1)"
    by (simp only: one_pixel_data)
  from analyzeLighting_classified [OF s h assms(1) L] show ?thesis by blast
qed

lemma rendered_lighting_card: "element (monitors renderedWidget lighting)"
  by code_simp

text \<open>
  C8 as stated, with \<open>L\<close> the exact average, fails at its boundary: the single pixel
  (5, 77, 29) has the exact luminance 50, for which the claim says \<open>DIM\<close>; the analyzer
  computes 49.99999999999999 and shows \<open>DARK\<close>.
\<close>

theorem lighting_exact_boundary_counterexample:
  "spec_luminance id (bytesSource 1 1 [5, 77, 29, 255]) 1 1 = 50 \<and>
   lightingSource (bytesEnv 1 1 [5, 77, 29, 255]) = Some (1, 1, bytesSource 1 1 [5, 77, 29, 255]) \<and>
   element (monitors renderedWidget lighting) \<and>
   status (monitors (analyzeLighting renderedWidget (bytesEnv 1 1 [5, 77, 29, 255])) lighting) = ''DARK'' \<and>
   status (monitors (analyzeLighting renderedWidget (bytesEnv 1 1 [5, 77, 29, 255])) lighting) \<noteq> ''DIM''"
proof -
  have s: "lightingSource (bytesEnv 1 1 [5, 77, 29, 255]) = Some (1, 1, bytesSource 1 1 [5, 77, 29, 255])"
    by (rule bytes_lightingSource) simp
  have d: "status (monitors (analyzeLighting renderedWidget (bytesEnv 1 1 [5, 77, 29, 255])) lighting) = ''DARK''"
    using analyzeLighting_one_pixel [OF rendered_lighting_card lum_boundary [symmetric]] by simp
  from lum_boundary_exact s rendered_lighting_card d show ?thesis by simp
qed

text \<open>The seven boundary values, each as a one-pixel frame of that grey level, and a
  frame of two different pixels.\<close>

lemma lum_greys:
  "avgBrightness [50, 50, 50, 255] = 50" "avgBrightness [90, 90, 90, 255] = 90"
  "avgBrightness [180, 180, 180, 255] = 180" "avgBrightness [181, 181, 181, 255] = 181"
  "avgBrightness [220, 220, 220, 255] = 220" "avgBrightness [221, 221, 221, 255] = 221"
  by (simp_all add: avgBrightness_def avgBrightnessWith_def toDouble_eval)

lemma lighting_boundaries:
  "status (monitors (analyzeLighting renderedWidget (bytesEnv 1 1 [49, 49, 49, 255])) lighting) = ''DARK''"
  "status (monitors (analyzeLighting renderedWidget (bytesEnv 1 1 [50, 50, 50, 255])) lighting) = ''DIM''"
  "status (monitors (analyzeLighting renderedWidget (bytesEnv 1 1 [90, 90, 90, 255])) lighting) = ''GOOD''"
  "status (monitors (analyzeLighting renderedWidget (bytesEnv 1 1 [180, 180, 180, 255])) lighting) = ''GOOD''"
  "status (monitors (analyzeLighting renderedWidget (bytesEnv 1 1 [181, 181, 181, 255])) lighting) = ''BRIGHT''"
  "status (monitors (analyzeLighting renderedWidget (bytesEnv 1 1 [220, 220, 220, 255])) lighting) = ''BRIGHT''"
  "status (monitors (analyzeLighting renderedWidget (bytesEnv 1 1 [221, 221, 221, 255])) lighting) = ''OVEREXPOSED''"
  using analyzeLighting_one_pixel [OF rendered_lighting_card lum_49 [symmetric]]
        analyzeLighting_one_pixel [OF rendered_lighting_card lum_greys(1) [symmetric]]
        analyzeLighting_one_pixel [OF rendered_lighting_card lum_greys(2) [symmetric]]
        analyzeLighting_one_pixel [OF rendered_lighting_card lum_greys(3) [symmetric]]
        analyzeLighting_one_pixel [OF rendered_lighting_card lum_greys(4) [symmetric]]
        analyzeLighting_one_pixel [OF rendered_lighting_card lum_greys(5) [symmetric]]
        analyzeLighting_one_pixel [OF rendered_lighting_card lum_greys(6) [symmetric]]
  by simp_all

lemma two_pixel_data:
  "getImageData (bytesSource 2 1 [10, 200, 30, 255, 250, 20, 90, 255]) 2 1 =
     [10, 200, 30, 255, 250, 20, 90, 255]"
  by (simp add: getImageData_def bytesSource_def upt_0_8)

lemma lighting_two_pixels:
  "avgBrightness (getImageData (bytesSource 2 1 [10, 200, 30, 255, 250, 20, 90, 255]) 2 1) =
     3880132553956393 / 35184372088832"
  unfolding two_pixel_data
  by (simp add: avgBrightness_def avgBrightnessWith_def toDouble_eval)

section \<open>Focus\<close>

lemma analyzeFocus_classified:
  assumes "cvReady w" and "cvDefined e"
    and "lm_at landmarks LEFT_EYE = Some leftEye"
    and "lm_at landmarks RIGHT_EYE = Some rightEye"
    and "lm_at landmarks NOSE_TIP = Some nose"
    and "media_of e = Some m" and "focusSource m = Some src"
    and "sourceDims src = (sw, sh)" and "40 \<le> sw" and "40 \<le> sh"
    and "laplacianStdDev e (sampleOrigin (px leftEye) (px rightEye) (px nose) sw)
                           (sampleOrigin (py leftEye) (py rightEye) (py nose) sh) = Some s"
    and "element (monitors w focus)"
  shows "status (monitors (analyzeFocus w e landmarks) focus) =
           (if s > 12 then ''SHARP'' else if s > 6 then ''OK'' else ''BLURRY'') \<and>
         statusClass (monitors (analyzeFocus w e landmarks) focus) =
           (if s > 12 then ''good'' else if s > 6 then ''warning'' else ''bad'')"
  using assms by (simp add: analyzeFocus_def Let_def monitors_updateMonitorStatus)

lemma square_thresholds:
  assumes "0 \<le> (s::real)"
  shows "(s\<^sup>2 > 144) = (s > 12)" and "(s\<^sup>2 > 36) = (s > 6)"
proof -
  have a: "s\<^sup>2 \<le> 144 \<longleftrightarrow> s \<le> 12"
  proof
    assume "s\<^sup>2 \<le> 144"
    then have "s\<^sup>2 \<le> 12\<^sup>2" by simp
    then show "s \<le> 12" by (rule power2_le_imp_le) simp
  next
    assume "s \<le> 12"
    with assms have "s\<^sup>2 \<le> 12\<^sup>2" by (rule power_mono [rotated])
    then show "s\<^sup>2 \<le> 144" by simp
  qed
  have b: "s\<^sup>2 \<le> 36 \<longleftrightarrow> s \<le> 6"
  proof
    assume "s\<^sup>2 \<le> 36"
    then have "s\<^sup>2 \<le> 6\<^sup>2" by simp
    then show "s \<le> 6" by (rule power2_le_imp_le) simp
  next
    assume "s \<le> 6"
    with assms have "s\<^sup>2 \<le> 6\<^sup>2" by (rule power_mono [rotated])
    then show "s\<^sup>2 \<le> 36" by simp
  qed
  from a show "(s\<^sup>2 > 144) = (s > 12)" by auto
  from b show "(s\<^sup>2 > 36) = (s > 6)" by auto
qed

text \<open>
  C9 (as amended): when all preconditions of the focus analysis hold (OpenCV ready, the
  three landmarks present, a source of at least 40x40, the monitor's card present) and
  \<open>s\<close> is the standard deviation of the Laplacian response over the sample patch (the
  value \<open>stdDev.doubleAt(0, 0)\<close> of \<open>cv.meanStdDev\<close>, which the source stores in its
  variable \<open>variance\<close>), the status is \<open>SHARP\<close>/\<open>good\<close> for \<open>s > 12\<close>, \<open>OK\<close>/\<open>warning\<close> for
  \<open>6 < s \<le> 12\<close> and \<open>BLURRY\<close>/\<open>bad\<close> for \<open>s \<le> 6\<close>; 12 gives \<open>OK\<close>, 6 gives \<open>BLURRY\<close>, 13
  gives \<open>SHARP\<close>. In terms of the variance \<open>v = s\<^sup>2\<close> the thresholds are 144 and 36.
\<close>

theorem focus_classification:
  assumes "cvReady w" and "cvDefined e"
    and "lm_at landmarks LEFT_EYE = Some leftEye"
    and "lm_at landmarks RIGHT_EYE = Some rightEye"
    and "lm_at landmarks NOSE_TIP = Some nose"
    and "media_of e = Some m" and "focusSource m = Some src"
    and "sourceDims src = (sw, sh)" and "40 \<le> sw" and "40 \<le> sh"
    and "laplacianStdDev e (sampleOrigin (px leftEye) (px rightEye) (px nose) sw)
                           (sampleOrigin (py leftEye) (py rightEye) (py nose) sh) = Some s"
    and "element (monitors w focus)"
  shows "(s > 12 \<longrightarrow> status (monitors (analyzeFocus w e landmarks) focus) = ''SHARP'' \<and>
                    statusClass (monitors (analyzeFocus w e landmarks) focus) = ''good'') \<and>
         (6 < s \<and> s \<le> 12 \<longrightarrow> status (monitors (analyzeFocus w e landmarks) focus) = ''OK'' \<and>
                    statusClass (monitors (analyzeFocus w e landmarks) focus) = ''warning'') \<and>
         (s \<le> 6 \<longrightarrow> status (monitors (analyzeFocus w e landmarks) focus) = ''BLURRY'' \<and>
                    statusClass (monitors (analyzeFocus w e landmarks) focus) = ''bad'') \<and>
         (s = 12 \<longrightarrow> status (monitors (analyzeFocus w e landmarks) focus) = ''OK'') \<and>
         (s = 6 \<longrightarrow> status (monitors (analyzeFocus w e landmarks) focus) = ''BLURRY'') \<and>
         (s = 13 \<longrightarrow> status (monitors (analyzeFocus w e landmarks) focus) = ''SHARP'') \<and>
         laplacianVariance e (sampleOrigin (px leftEye) (px rightEye) (px nose) sw)
                             (sampleOrigin (py leftEye) (py rightEye) (py nose) sh) = Some (s\<^sup>2) \<and>
         (0 \<le> s \<longrightarrow>
            (s\<^sup>2 > 144 \<longrightarrow> status (monitors (analyzeFocus w e landmarks) focus) = ''SHARP'') \<and>
            (36 < s\<^sup>2 \<and> s\<^sup>2 \<le> 144 \<longrightarrow>
               status (monitors (analyzeFocus w e landmarks) focus) = ''OK'') \<and>
            (s\<^sup>2 \<le> 36 \<longrightarrow> status (monitors (analyzeFocus w e landmarks) focus) = ''BLURRY''))"
proof -
  note c = analyzeFocus_classified [OF assms]
  have v: "laplacianVariance e (sampleOrigin (px leftEye) (px rightEye) (px nose) sw)
                             (sampleOrigin (py leftEye) (py rightEye) (py nose) sh) = Some (s\<^sup>2)"
    using assms(11) by (simp add: laplacianVariance_def)
  have q: "0 \<le> s \<longrightarrow>
            (s\<^sup>2 > 144 \<longrightarrow> status (monitors (analyzeFocus w e landmarks) focus) = ''SHARP'') \<and>
            (36 < s\<^sup>2 \<and> s\<^sup>2 \<le> 144 \<longrightarrow>
               status (monitors (analyzeFocus w e landmarks) focus) = ''OK'') \<and>
            (s\<^sup>2 \<le> 36 \<longrightarrow> status (monitors (analyzeFocus w e landmarks) focus) = ''BLURRY'')"
  proof
    assume n: "0 \<le> s"
    from square_thresholds [OF n] c
    show "(s\<^sup>2 > 144 \<longrightarrow> status (monitors (analyzeFocus w e landmarks) focus) = ''SHARP'') \<and>
            (36 < s\<^sup>2 \<and> s\<^sup>2 \<le> 144 \<longrightarrow>
               status (monitors (analyzeFocus w e landmarks) focus) = ''OK'') \<and>
            (s\<^sup>2 \<le> 36 \<longrightarrow> status (monitors (analyzeFocus w e landmarks) focus) = ''BLURRY'')"
      by auto
  qed
  from c v q show ?thesis by simp
qed

text \<open>The amended C9 with a 640x480 camera, a centred face and the value 12.\<close>

theorem focus_classification_witness:
  "cvReady cvWidget \<and> cvDefined (focusEnv 12) \<and> element (monitors cvWidget focus) \<and>
   laplacianStdDev (focusEnv 12) 300 220 = Some 12 \<and>
   status (monitors (analyzeFocus cvWidget (focusEnv 12) (faceAt 0.5 0.5)) focus) = ''OK'' \<and>
   statusClass (monitors (analyzeFocus cvWidget (focusEnv 12) (faceAt 0.5 0.5)) focus) = ''warning''"
proof -
  let ?p = "\<lparr>px = 0.5, py = 0.5, pz = Some (0::real)\<rparr>"
  let ?src = "\<lparr>tagName = ''VIDEO'', videoWidth = 640, videoHeight = 480,
               width = 0, height = 0, rgba = (\<lambda>_. 120)\<rparr>"
  have c: "cvReady cvWidget" by code_simp
  have d: "cvDefined (focusEnv 12)" by code_simp
  have l1: "lm_at (faceAt 0.5 0.5) LEFT_EYE = Some ?p" by code_simp
  have l2: "lm_at (faceAt 0.5 0.5) RIGHT_EYE = Some ?p" by code_simp
  have l3: "lm_at (faceAt 0.5 0.5) NOSE_TIP = Some ?p" by code_simp
  have m: "media_of (focusEnv 12) = Some \<lparr>video = Some ?src, imageCanvas = None\<rparr>"
    by (simp add: focusEnv_def)
  have f: "focusSource \<lparr>video = Some ?src, imageCanvas = None\<rparr> = Some ?src"
    by (simp add: focusSource_def)
  have sd: "sourceDims ?src = (640, 480)" by (simp add: sourceDims_def)
  have w40: "(40::nat) \<le> 640" and h40: "(40::nat) \<le> 480" by simp_all
  have ox: "sampleOrigin (px ?p) (px ?p) (px ?p) 640 = 300"
    by (simp add: sampleOrigin_def Let_def)
  have oy: "sampleOrigin (py ?p) (py ?p) (py ?p) 480 = 220"
    by (simp add: sampleOrigin_def Let_def)
  have v: "laplacianStdDev (focusEnv 12) (sampleOrigin (px ?p) (px ?p) (px ?p) 640)
             (sampleOrigin (py ?p) (py ?p) (py ?p) 480) = Some 12"
    by (simp add: focusEnv_def)
  have v': "laplacianStdDev (focusEnv 12) 300 220 = Some 12" by (simp add: focusEnv_def)
  have el: "element (monitors cvWidget focus)" by code_simp
  from focus_classification [OF c d l1 l2 l3 m f sd w40 h40 v el]
  have r: "status (monitors (analyzeFocus cvWidget (focusEnv 12) (faceAt 0.5 0.5)) focus) = ''OK'' \<and>
   statusClass (monitors (analyzeFocus cvWidget (focusEnv 12) (faceAt 0.5 0.5)) focus) = ''warning''"
    by simp
  from c d el v' r show ?thesis by blast
qed

text \<open>
  C9 as stated, with the thresholds read against the variance, fails: a patch of variance
  100 (standard deviation 10) is shown \<open>OK\<close>, not \<open>SHARP\<close>, and a patch of variance 9
  (standard deviation 3) is shown \<open>BLURRY\<close>, not \<open>OK\<close>.
\<close>

theorem focus_variance_counterexample:
  "laplacianVariance (focusEnv 10) 300 220 = Some 100 \<and> (100::real) > 12 \<and>
   status (monitors (analyzeFocus cvWidget (focusEnv 10) (faceAt 0.5 0.5)) focus) = ''OK'' \<and>
   status (monitors (analyzeFocus cvWidget (focusEnv 10) (faceAt 0.5 0.5)) focus) \<noteq> ''SHARP'' \<and>
   laplacianVariance (focusEnv 3) 300 220 = Some 9 \<and> (6::real) < 9 \<and> (9::real) \<le> 12 \<and>
   status (monitors (analyzeFocus cvWidget (focusEnv 3) (faceAt 0.5 0.5)) focus) = ''BLURRY'' \<and>
   status (monitors (analyzeFocus cvWidget (focusEnv 3) (faceAt 0.5 0.5)) focus) \<noteq> ''OK''"
proof -
  have v: "laplacianVariance (focusEnv 10) 300 220 = Some 100"
          "laplacianVariance (focusEnv 3) 300 220 = Some 9"
    by (simp_all add: laplacianVariance_def focusEnv_def)
  have a: "status (monitors (analyzeFocus cvWidget (focusEnv 10) (faceAt 0.5 0.5)) focus) = ''OK''"
    by code_simp
  have b: "status (monitors (analyzeFocus cvWidget (focusEnv 3) (faceAt 0.5 0.5)) focus) = ''BLURRY''"
    by code_simp
  from v a b show ?thesis by simp
qed

text \<open>The three boundary values of the standard deviation.\<close>

lemma focus_boundaries:
  "map (\<lambda>v. status (monitors (analyzeFocus cvWidget (focusEnv v) (faceAt 0.5 0.5)) focus))
     [12, 6, 13] = [''OK'', ''BLURRY'', ''SHARP'']"
  by code_simp

section \<open>A throttle pass without a frame\<close>

lemma analyzeLighting_others:
  "k \<noteq> lighting \<Longrightarrow> monitors (analyzeLighting w e) k = monitors w k"
  by (simp add: analyzeLighting_def Let_def monitors_updateMonitorStatus
      split: option.splits prod.splits)

lemma no_frame_no_requests:
  "\<not> truthy (getCurrentFrame e) \<Longrightarrow> runMoonDreamAnalysis w e = []"
  by (simp add: runMoonDreamAnalysis_def truthy_def split: option.splits)

text \<open>
  C10: if the monitor is running, the throttle window has elapsed and no current frame is
  available, the cycle still sets the throttle timestamp to the current time, dispatches no
  remote request and changes no monitor beyond what the lighting analysis of the same cycle
  does; any later cycle within 2000 ms of it dispatches no remote request either.
\<close>

theorem no_frame_advances_throttle:
  assumes "isMonitoring w" and "now - lastMoonDreamCall w > 2000"
    and "\<not> truthy (getCurrentFrame e)"
  shows "lastMoonDreamCall (fst (runMonitoringCycle w e now)) = now \<and>
         \<not> list_ex isRemote (snd (runMonitoringCycle w e now)) \<and>
         runMoonDreamAnalysis (fst (runMonitoringCycle w e now)) e = [] \<and>
         monitors (fst (runMonitoringCycle w e now)) =
           monitors (if enabled (monitors w lighting) then analyzeLighting w e else w) \<and>
         (\<forall>k. k \<noteq> lighting \<longrightarrow> monitors (fst (runMonitoringCycle w e now)) k = monitors w k) \<and>
         (\<forall>e' now'. now' - now \<le> 2000 \<longrightarrow>
            \<not> list_ex isRemote (snd (runMonitoringCycle (fst (runMonitoringCycle w e now)) e' now')))"
proof -
  let ?w' = "fst (runMonitoringCycle w e now)"
  have l: "lastMoonDreamCall ?w' = now" using assms by (simp add: cycle_last)
  have r: "\<not> list_ex isRemote (snd (runMonitoringCycle w e now))"
    using assms by (simp add: runMonitoringCycle_def Let_def no_frame_no_requests)
  have a: "runMoonDreamAnalysis ?w' e = []" using assms by (simp add: no_frame_no_requests)
  have m: "monitors ?w' = monitors (if enabled (monitors w lighting) then analyzeLighting w e else w)"
    using assms by (simp add: runMonitoringCycle_def Let_def)
  have o: "\<forall>k. k \<noteq> lighting \<longrightarrow> monitors ?w' k = monitors w k"
    by (simp add: m analyzeLighting_others)
  have n: "\<forall>e' now'. now' - now \<le> 2000 \<longrightarrow>
            \<not> list_ex isRemote (snd (runMonitoringCycle ?w' e' now'))"
  proof (intro allI impI)
    fix e' now' assume d: "now' - now \<le> (2000::int)"
    show "\<not> list_ex isRemote (snd (runMonitoringCycle ?w' e' now'))"
    proof
      assume "list_ex isRemote (snd (runMonitoringCycle ?w' e' now'))"
      from cycle_remote [OF this] l d show False by simp
    qed
  qed
  from l r a m o n show ?thesis by blast
qed

text \<open>C10 at the started session after the camera was switched off.\<close>

theorem no_frame_advances_throttle_witness:
  "isMonitoring startedWidget \<and> 1003000 - lastMoonDreamCall startedWidget > 2000 \<and>
   getCurrentFrame noFrameEnv = None \<and>
   lastMoonDreamCall (fst (runMonitoringCycle startedWidget noFrameEnv 1003000)) = 1003000 \<and>
   snd (runMonitoringCycle startedWidget noFrameEnv 1003000) = [] \<and>
   monitors (fst (runMonitoringCycle startedWidget noFrameEnv 1003000)) presence =
     monitors startedWidget presence \<and>
   \<not> list_ex isRemote
        (snd (runMonitoringCycle (fst (runMonitoringCycle startedWidget noFrameEnv 1003000))
                liveEnv 1004500))"
proof -
  have i: "isMonitoring startedWidget" by code_simp
  have t: "1003000 - lastMoonDreamCall startedWidget > 2000" by code_simp
  have g: "getCurrentFrame noFrameEnv = None" by code_simp
  then have f: "\<not> truthy (getCurrentFrame noFrameEnv)" by (simp add: truthy_def)
  have s: "snd (runMonitoringCycle startedWidget noFrameEnv 1003000) = []"
    by (simp add: runMonitoringCycle_def startedWidget_code analyzeLighting_noFrame
        runMoonDreamAnalysis_def noFrameEnv_reads Let_def updateMonitorStatus_def)
  note n = no_frame_advances_throttle [OF i t f]
  from n have l: "lastMoonDreamCall (fst (runMonitoringCycle startedWidget noFrameEnv 1003000)) = 1003000"
    by blast
  from n have o: "\<forall>k. k \<noteq> lighting \<longrightarrow>
       monitors (fst (runMonitoringCycle startedWidget noFrameEnv 1003000)) k =
       monitors startedWidget k"
    by blast
  from o [rule_format, of presence]
  have p: "monitors (fst (runMonitoringCycle startedWidget noFrameEnv 1003000)) presence =
     monitors startedWidget presence" by simp
  from n have d: "\<forall>e' now'. now' - 1003000 \<le> 2000 \<longrightarrow>
            \<not> list_ex isRemote (snd (runMonitoringCycle
                  (fst (runMonitoringCycle startedWidget noFrameEnv 1003000)) e' now'))"
    by blast
  from d [rule_format, of 1004500 liveEnv]
  have x: "\<not> list_ex isRemote
        (snd (runMonitoringCycle (fst (runMonitoringCycle startedWidget noFrameEnv 1003000))
                liveEnv 1004500))" by simp
  from i t g l s p x show ?thesis by blast
qed

section \<open>Guards that the handlers do have\<close>

lemma enabled_updateMonitorStatus [simp]:
  "enabled (monitors (updateMonitorStatus w key st cl) k) = enabled (monitors w k)"
  by (simp add: monitors_updateMonitorStatus)

lemma analyzeOrientation_monitors:
  "enabled (monitors (analyzeOrientation w l) k) = enabled (monitors w k) \<and>
   (k \<noteq> orientation \<longrightarrow> monitors (analyzeOrientation w l) k = monitors w k)"
  by (simp add: analyzeOrientation_def Let_def monitors_updateMonitorStatus
      split: option.splits prod.splits)

lemma analyzeTalking_monitors:
  "enabled (monitors (analyzeTalking w l now) k) = enabled (monitors w k) \<and>
   (k \<noteq> talking \<longrightarrow> monitors (analyzeTalking w l now) k = monitors w k)"
  by (simp add: analyzeTalking_def Let_def monitors_updateMonitorStatus
      split: option.splits prod.splits)

lemma analyzeFocus_monitors:
  "enabled (monitors (analyzeFocus w e l) k) = enabled (monitors w k) \<and>
   (k \<noteq> focus \<longrightarrow> monitors (analyzeFocus w e l) k = monitors w k)"
  by (simp add: analyzeFocus_def Let_def monitors_updateMonitorStatus
      split: option.splits prod.splits)

lemma analyzeLighting_monitors:
  "enabled (monitors (analyzeLighting w e) k) = enabled (monitors w k) \<and>
   (k \<noteq> lighting \<longrightarrow> monitors (analyzeLighting w e) k = monitors w k)"
  by (simp add: analyzeLighting_def Let_def monitors_updateMonitorStatus
      split: option.splits prod.splits)

lemma smoothLandmarks_monitors [simp]:
  "monitors (fst (smoothLandmarks w l)) = monitors w"
  by (simp add: smoothLandmarks_def Let_def)

lemma processFrameResults_disabled:
  assumes "\<not> enabled (monitors w k)"
  shows "monitors (processFrameResults w e now mfl) k = monitors w k"
proof (cases "isMonitoring w")
  case False
  then show ?thesis by (simp add: processFrameResults_def)
next
  case True
  show ?thesis
  proof (cases "\<exists>first others. mfl = Some (first # others)")
    case False
    then have "processFrameResults w e now mfl =
      (let w1 = (if enabled (monitors w orientation)
                        then updateMonitorStatus w orientation ''NO FACE'' ''bad'' else w);
                  w2 = (if enabled (monitors w1 talking)
                        then updateMonitorStatus w1 talking ''NO FACE'' ''bad'' else w1)
              in if enabled (monitors w2 focus)
                 then updateMonitorStatus w2 focus ''NO FACE'' ''bad'' else w2)"
      using True by (auto simp add: processFrameResults_def split: option.splits list.splits)
    with assms show ?thesis
      by (auto simp add: Let_def monitors_updateMonitorStatus)
  next
    case True
    then obtain first others where m: "mfl = Some (first # others)" by blast
    define w0 where "w0 = fst (smoothLandmarks w first)"
    define lms where "lms = snd (smoothLandmarks w first)"
    define w1 where "w1 = (if enabled (monitors w0 orientation)
                             then analyzeOrientation w0 lms else w0)"
    define w2 where "w2 = (if enabled (monitors w1 talking)
                             then analyzeTalking w1 lms now else w1)"
    define w3 where "w3 = (if enabled (monitors w2 focus) \<and> cvReady w2
                      then analyzeFocus w2 e lms else w2)"
    have p: "processFrameResults w e now mfl = w3"
      using \<open>isMonitoring w\<close> m
      by (simp add: processFrameResults_def Let_def case_prod_beta w0_def lms_def w1_def w2_def w3_def)
    have k0: "monitors w0 k = monitors w k" by (simp add: w0_def)
    have k1: "monitors w1 k = monitors w0 k"
      using assms k0 analyzeOrientation_monitors [of w0 lms k] by (auto simp add: w1_def)
    have k2: "monitors w2 k = monitors w1 k"
      using assms k0 k1 analyzeTalking_monitors [of w1 lms now k] by (auto simp add: w2_def)
    have k3: "monitors w3 k = monitors w2 k"
      using assms k0 k1 k2 analyzeFocus_monitors [of w2 e lms k] by (auto simp add: w3_def)
    from p k0 k1 k2 k3 show ?thesis by simp
  qed
qed

lemma detectThen_disabled:
  assumes "\<not> enabled (monitors w k)"
  shows "monitors (detectThen w objs) k = monitors w k"
  using assms
  by (auto simp add: detectThen_def Let_def monitors_updateMonitorStatus split: list.splits)

lemma detectCatch_disabled:
  assumes "\<not> enabled (monitors w k)"
  shows "monitors (detectCatch w) k = monitors w k"
  using assms by (auto simp add: detectCatch_def Let_def monitors_updateMonitorStatus)

lemma caption_others:
  "k \<noteq> sceneContext \<Longrightarrow>
     monitors (captionThen w cap) k = monitors w k \<and> monitors (captionCatch w) k = monitors w k"
  by (simp add: captionThen_def captionCatch_def Let_def monitors_updateMonitorStatus
      split: option.splits)

lemma cycle_disabled:
  assumes "\<not> enabled (monitors w k)"
  shows "monitors (fst (runMonitoringCycle w e now)) k = monitors w k"
  using assms analyzeLighting_monitors [of w e k]
  by (auto simp add: runMonitoringCycle_def Let_def)

lemma analyzing_disabled:
  "\<not> enabled (monitors w k) \<Longrightarrow>
     monitors (foldl (\<lambda>s key. if enabled (monitors s key)
                               then updateMonitorStatus s key ''Analyzing...'' ''warning''
                               else s) w keys) k = monitors w k"
proof (induction keys arbitrary: w)
  case Nil
  then show ?case by simp
next
  case (Cons key keys)
  let ?w1 = "if enabled (monitors w key)
             then updateMonitorStatus w key ''Analyzing...'' ''warning'' else w"
  from Cons.prems have e: "\<not> enabled (monitors ?w1 k)" by simp
  from Cons.prems have s: "monitors ?w1 k = monitors w k"
    by (auto simp add: monitors_updateMonitorStatus)
  from Cons.IH [OF e] s show ?case by simp
qed

lemma toggleMonitoring_disabled:
  assumes "\<not> enabled (monitors w k)"
  shows "monitors (fst (toggleMonitoring w e now)) k = monitors w k"
proof -
  let ?w1 = "w\<lparr>isMonitoring := True\<rparr>"
  let ?w2 = "foldl (\<lambda>s key. if enabled (monitors s key)
                               then updateMonitorStatus s key ''Analyzing...'' ''warning''
                               else s) ?w1 allKeys"
  from assms have a: "\<not> enabled (monitors ?w1 k)" by simp
  from analyzing_disabled [OF a, of allKeys] have b: "monitors ?w2 k = monitors w k" by simp
  with assms have c: "\<not> enabled (monitors ?w2 k)" by simp
  from cycle_disabled [OF c, of e now] b
  have "monitors (fst (runMonitoringCycle ?w2 e now)) k = monitors w k" by simp
  then show ?thesis
    by (simp add: toggleMonitoring_def startMonitoring_def stopMonitoring_def Let_def case_prod_beta)
qed

lemma toggleMonitor_others:
  "j \<noteq> k \<Longrightarrow> monitors (toggleMonitor w j) k = monitors w k"
  by (simp add: toggleMonitor_def Let_def monitors_updateMonitorStatus)

text \<open>A disabled monitor other than the scene context keeps its entry under every event
  except its own toggle: the landmark callback, the detect callbacks, the lighting analysis
  of a cycle and the start of a session all read the enabled flag when they run.\<close>

lemma disabled_monitor_kept:
  assumes "\<not> enabled (monitors w k)" and "k \<noteq> sceneContext" and "ev \<noteq> ToggleMonitor k"
  shows "monitors (fst (step w ev)) k = monitors w k"
proof (cases ev)
  case (ToggleMonitor j)
  with assms show ?thesis by (simp add: toggleMonitor_others)
next
  case (ToggleMonitoring e now)
  with assms show ?thesis by (simp add: toggleMonitoring_disabled)
next
  case Unmount
  then show ?thesis by (simp add: stopMonitoring_def Let_def)
next
  case (Tick e now)
  with assms show ?thesis by (simp add: cycle_disabled)
next
  case (FaceMeshResults e now mfl)
  with assms show ?thesis by (simp add: processFrameResults_disabled)
next
  case (DetectResolved objs)
  with assms show ?thesis by (simp add: detectThen_disabled)
next
  case DetectRejected
  with assms show ?thesis by (simp add: detectCatch_disabled)
next
  case (CaptionResolved cap)
  with assms show ?thesis by (simp add: caption_others)
next
  case CaptionRejected
  with assms show ?thesis by (simp add: caption_others)
qed

text \<open>Toggling an enabled monitor off writes \<open>OFF\<close>/\<open>disabled\<close> in the same call.\<close>

lemma toggle_off_sets_OFF:
  assumes "enabled (monitors w k)" and "element (monitors w k)"
  shows "\<not> enabled (monitors (toggleMonitor w k) k) \<and>
         status (monitors (toggleMonitor w k) k) = ''OFF'' \<and>
         statusClass (monitors (toggleMonitor w k) k) = ''disabled''"
  using assms by (simp add: toggleMonitor_def Let_def monitors_updateMonitorStatus)


text \<open>A stopped session runs no cycle.\<close>

lemma stopped_cycle_idle:
  "\<not> isMonitoring w \<Longrightarrow> runMonitoringCycle w e now = (w, [])"
  by (simp add: runMonitoringCycle_def)

end
